theory Spec2Isabelle
  imports Main "HOL-Library.Word"
begin

section \<open>Data of the request handler (main.go)\<close>

text \<open>
  The Lambda handler of main.go decodes a JSON body, calls the image generation client
  once, uploads every returned image to S3 and answers with the public URLs. Everything
  outside the handler (the JSON decoder, the generation client, the S3 client, the wall
  clock) is an explicit parameter; every call the handler makes is recorded in an
  explicit world that is passed through and returned.
\<close>

type_synonym bytes = "8 word list"

text \<open>A Go \<^verbatim>\<open>error\<close> is modelled by its text; \<open>None\<close> is the nil error.\<close>

type_synonym go_error = "string option"

text \<open>\<^verbatim>\<open>type requestPayload struct\<close>; \<^verbatim>\<open>NumberOfImages\<close> is an int32.\<close>

record requestPayload =
  NumberOfImages :: "32 word"
  AspectRatio :: string
  PersonGeneration :: string
  Prompt :: string

text \<open>
  \<^verbatim>\<open>type responsePayload struct\<close>. A Go slice is nil or a sequence: \<open>None\<close> is the
  nil slice, which \<^verbatim>\<open>json.Marshal\<close> writes as \<^verbatim>\<open>null\<close>.
\<close>

record responsePayload =
  ImageURLs :: "string list option"

text \<open>The fields of \<^verbatim>\<open>genai.GenerateImagesConfig\<close> that the handler sets.\<close>

record GenerateImagesConfig =
  gc_NumberOfImages :: "32 word"
  gc_AspectRatio :: string
  gc_PersonGeneration :: string

text \<open>The fields of \<^verbatim>\<open>s3.PutObjectInput\<close> that the handler sets.\<close>

record PutObjectInput =
  po_Bucket :: string
  po_Key :: string
  po_Body :: bytes
  po_ContentType :: string

text \<open>The field of \<^verbatim>\<open>events.APIGatewayProxyRequest\<close> that the handler reads.\<close>

record APIGatewayProxyRequest =
  req_Body :: string

text \<open>The fields of \<^verbatim>\<open>events.APIGatewayProxyResponse\<close> that the handler sets.\<close>

record APIGatewayProxyResponse =
  StatusCode :: int
  Headers :: "(string \<times> string) list"
  Body :: string

text \<open>
  The package variables \<^verbatim>\<open>bucketName\<close>, \<^verbatim>\<open>folderPrefix\<close> and \<^verbatim>\<open>region\<close>, set once by
  \<^verbatim>\<open>init\<close> and only read afterwards.
\<close>

record config =
  bucketName :: string
  folderPrefix :: string
  region :: string

text \<open>
  What \<^verbatim>\<open>time.Now()\<close> returns, as the calendar fields of the local time that
  \<^verbatim>\<open>Format\<close> reads.
\<close>

record time =
  Year :: int
  Month :: int
  Day :: int
  Hour :: int
  Minute :: int
  Second :: int

text \<open>One call of \<^verbatim>\<open>Models.GenerateImages\<close>: the model name, the prompt, the configuration.\<close>

type_synonym gen_call = "string \<times> string \<times> GenerateImagesConfig"

text \<open>
  The world outside the handler: every call of the generation client, every call of
  \<^verbatim>\<open>PutObject\<close> (failed ones too), the objects in the store (bucket and key to body and
  content type), the number of times the clock was read, and the lines written by
  \<^verbatim>\<open>log.Printf\<close>.
\<close>

record world =
  gen_calls :: "gen_call list"
  put_calls :: "PutObjectInput list"
  store :: "(string \<times> string) \<rightharpoonup> (bytes \<times> string)"
  now_calls :: nat
  log_lines :: "string list"

text \<open>
  The behaviour of the libraries and services the handler calls. The result of a call may
  depend on the calls made before it:
  \<^item> \<open>json_Unmarshal_result\<close>: \<^verbatim>\<open>json.Unmarshal\<close> of a body into a zero
    \<^verbatim>\<open>requestPayload\<close>, the error text or the decoded struct;
  \<^item> \<open>json_string\<close>: how \<^verbatim>\<open>json.Marshal\<close> writes one string (quotes and escapes);
  \<^item> \<open>GenerateImages_result\<close>: the error text or the bytes of the generated images
    (\<^verbatim>\<open>img.Image.ImageBytes\<close> of each element of \<^verbatim>\<open>genResp.GeneratedImages\<close>, every
    element taken to carry an image), given the earlier generation calls;
  \<^item> \<open>PutObject_result\<close>: \<open>None\<close> when the write succeeds, the error text otherwise,
    given the earlier \<^verbatim>\<open>PutObject\<close> calls;
  \<^item> \<open>Now_result\<close>: the n-th reading of the clock.
\<close>

record services =
  json_Unmarshal_result :: "string \<Rightarrow> string + requestPayload"
  json_string :: "string \<Rightarrow> string"
  GenerateImages_result :: "gen_call list \<Rightarrow> gen_call \<Rightarrow> string + bytes list"
  PutObject_result :: "PutObjectInput list \<Rightarrow> PutObjectInput \<Rightarrow> string option"
  Now_result :: "nat \<Rightarrow> time"

section \<open>Library functions the handler uses\<close>

subsection \<open>Decimal numbers: \<^verbatim>\<open>%d\<close> and the fields of \<^verbatim>\<open>Time.Format\<close>\<close>

definition digit_char :: "nat \<Rightarrow> char" where
  "digit_char d = char_of (48 + d)"

fun itoa :: "nat \<Rightarrow> string" where
  "itoa n = (if n < 10 then [digit_char n] else itoa (n div 10) @ [digit_char (n mod 10)])"

declare itoa.simps [simp del]

text \<open>
  \<^verbatim>\<open>appendInt(b, x, width)\<close> of package time: a minus sign for a negative number, then
  the decimal digits, padded with zeros on the left to the width.
\<close>

definition appendInt :: "int \<Rightarrow> nat \<Rightarrow> string" where
  "appendInt x width =
     (let ds = itoa (nat \<bar>x\<bar>)
      in (if x < 0 then ''-'' else []) @ replicate (width - length ds) (CHR ''0'') @ ds)"

text \<open>
  \<^verbatim>\<open>t.Format("20060102T150405")\<close>: the year on four digits, the month and the day on
  two, the letter T, the hour, the minute and the second on two.
\<close>

definition time_Format :: "time \<Rightarrow> string" where
  "time_Format t =
     appendInt (Year t) 4 @ appendInt (Month t) 2 @ appendInt (Day t) 2 @ ''T'' @
     appendInt (Hour t) 2 @ appendInt (Minute t) 2 @ appendInt (Second t) 2"

subsection \<open>\<^verbatim>\<open>path.Join\<close> and \<^verbatim>\<open>path.Clean\<close>\<close>

text \<open>The elements of a path: the pieces between its slashes.\<close>

fun split_slash :: "string \<Rightarrow> string list" where
  "split_slash [] = [[]]"
| "split_slash (c # cs) =
     (if c = CHR ''/'' then [] # split_slash cs
      else (case split_slash cs of [] \<Rightarrow> [[c]] | e # es \<Rightarrow> (c # e) # es))"

fun join_slash :: "string list \<Rightarrow> string" where
  "join_slash [] = []"
| "join_slash [e] = e"
| "join_slash (e # es) = e @ ''/'' @ join_slash es"

text \<open>
  The loop of \<^verbatim>\<open>path.Clean\<close>, element by element: an empty element (a doubled slash)
  and a dot are dropped; a dot-dot removes the element written last when there is one
  that is not itself a dot-dot, is kept at the start of a path that is not rooted, and is
  dropped at the start of a rooted path; any other element is written.
\<close>

fun clean_elems :: "bool \<Rightarrow> string list \<Rightarrow> string list \<Rightarrow> string list" where
  "clean_elems rooted out [] = out"
| "clean_elems rooted out (e # es) =
     (if e = [] \<or> e = ''.'' then clean_elems rooted out es
      else if e = ''..'' then
        (if out \<noteq> [] \<and> last out \<noteq> ''..'' then clean_elems rooted (butlast out) es
         else if \<not> rooted then clean_elems rooted (out @ [''..'']) es
         else clean_elems rooted out es)
      else clean_elems rooted (out @ [e]) es)"

definition path_Clean :: "string \<Rightarrow> string" where
  "path_Clean p =
     (if p = [] then ''.''
      else
        (let rooted = (hd p = CHR ''/'');
             out = (if rooted then ''/'' else []) @ join_slash (clean_elems rooted [] (split_slash p))
         in if out = [] then ''.'' else out))"

text \<open>
  \<^verbatim>\<open>path.Join(elem...)\<close>: the empty string when every element is empty; otherwise the
  elements from the first non-empty one on, joined by slashes and cleaned.
\<close>

definition path_Join :: "string list \<Rightarrow> string" where
  "path_Join elems =
     (if concat elems = [] then []
      else path_Clean (join_slash (dropWhile (\<lambda>e. e = []) elems)))"

subsection \<open>\<^verbatim>\<open>json.Marshal\<close> of a \<^verbatim>\<open>responsePayload\<close>\<close>

fun join_comma :: "string list \<Rightarrow> string" where
  "join_comma [] = []"
| "join_comma [e] = e"
| "join_comma (e # es) = e @ '','' @ join_comma es"

definition json_Marshal :: "services \<Rightarrow> responsePayload \<Rightarrow> string" where
  "json_Marshal svc v =
     ''{'' @ [CHR 0x22] @ ''imageUrls'' @ [CHR 0x22] @ '':'' @
     (case ImageURLs v of
        None \<Rightarrow> ''null''
      | Some us \<Rightarrow> ''['' @ join_comma (map (json_string svc) us) @ '']'') @
     ''}''"

subsection \<open>\<^verbatim>\<open>json.Unmarshal\<close> of a number into the int32 field\<close>

text \<open>
  How \<^verbatim>\<open>json.Unmarshal\<close> stores an integer literal of the body into
  \<^verbatim>\<open>NumberOfImages\<close>: the literal is parsed (\<^verbatim>\<open>strconv.ParseInt\<close>) and stored when it fits
  an int32 (\<^verbatim>\<open>OverflowInt\<close>); otherwise decoding fails with an \<^verbatim>\<open>UnmarshalTypeError\<close>.
\<close>

definition int32_of_number :: "int \<Rightarrow> string + 32 word" where
  "int32_of_number n =
     (if - (2 ^ 31) \<le> n \<and> n < 2 ^ 31 then Inr (word_of_int n)
      else Inl (''json: cannot unmarshal number '' @
                (if n < 0 then ''-'' else []) @ itoa (nat \<bar>n\<bar>) @
                '' into Go struct field requestPayload.numberOfImages of type int32''))"

text \<open>\<^verbatim>\<open>append(urls, url)\<close> on a slice that may be nil.\<close>

definition append_slice :: "string list option \<Rightarrow> string \<Rightarrow> string list option" where
  "append_slice s x = (case s of None \<Rightarrow> Some [x] | Some xs \<Rightarrow> Some (xs @ [x]))"

section \<open>Calls that change the world\<close>

definition time_Now :: "services \<Rightarrow> world \<Rightarrow> time \<times> world" where
  "time_Now svc w = (Now_result svc (now_calls w), w\<lparr>now_calls := Suc (now_calls w)\<rparr>)"

definition log_Printf :: "string \<Rightarrow> world \<Rightarrow> world" where
  "log_Printf line w = w\<lparr>log_lines := log_lines w @ [line]\<rparr>"

definition GenerateImages ::
  "services \<Rightarrow> world \<Rightarrow> string \<Rightarrow> string \<Rightarrow> GenerateImagesConfig \<Rightarrow> (string + bytes list) \<times> world" where
  "GenerateImages svc w model prompt genCfg =
     (GenerateImages_result svc (gen_calls w) (model, prompt, genCfg),
      w\<lparr>gen_calls := gen_calls w @ [(model, prompt, genCfg)]\<rparr>)"

text \<open>A successful write: the object is in the store under its bucket and key, replacing
  what was there.\<close>

definition commit ::
  "PutObjectInput \<Rightarrow> ((string \<times> string) \<rightharpoonup> (bytes \<times> string)) \<Rightarrow>
   ((string \<times> string) \<rightharpoonup> (bytes \<times> string))" where
  "commit inp s = s((po_Bucket inp, po_Key inp) \<mapsto> (po_Body inp, po_ContentType inp))"

text \<open>
  \<^verbatim>\<open>s3Client.PutObject\<close>: the call is recorded; when it succeeds, the object is
  committed to the store.
\<close>

definition PutObject :: "services \<Rightarrow> world \<Rightarrow> PutObjectInput \<Rightarrow> string option \<times> world" where
  "PutObject svc w inp =
     (let w1 = w\<lparr>put_calls := put_calls w @ [inp]\<rparr>
      in case PutObject_result svc (put_calls w) inp of
           Some err \<Rightarrow> (Some err, w1)
         | None \<Rightarrow> (None, w1\<lparr>store := commit inp (store w1)\<rparr>))"

section \<open>The handler\<close>

definition clientError :: "int \<Rightarrow> string \<Rightarrow> APIGatewayProxyResponse \<times> go_error" where
  "clientError status msg =
     (\<lparr>StatusCode = status, Headers = [(''Content-Type'', ''text/plain'')], Body = msg\<rparr>, None)"

definition serverError :: "string \<Rightarrow> APIGatewayProxyResponse \<times> go_error" where
  "serverError msg =
     (\<lparr>StatusCode = 500, Headers = [(''Content-Type'', ''text/plain'')], Body = msg\<rparr>, None)"

text \<open>The expressions of the upload loop: the key, the \<^verbatim>\<open>PutObjectInput\<close>, the URL.\<close>

definition object_name :: "nat \<Rightarrow> time \<Rightarrow> string" where
  "object_name idx t = ''imagen_'' @ itoa idx @ ''_'' @ time_Format t @ ''.png''"

definition object_key :: "config \<Rightarrow> nat \<Rightarrow> time \<Rightarrow> string" where
  "object_key cfg idx t = path_Join [folderPrefix cfg, object_name idx t]"

definition put_input :: "config \<Rightarrow> string \<Rightarrow> bytes \<Rightarrow> PutObjectInput" where
  "put_input cfg key img =
     \<lparr>po_Bucket = bucketName cfg, po_Key = key, po_Body = img, po_ContentType = ''image/png''\<rparr>"

definition object_url :: "config \<Rightarrow> string \<Rightarrow> string" where
  "object_url cfg key =
     ''https://'' @ bucketName cfg @ ''.s3.'' @ region cfg @ ''.amazonaws.com/'' @ key"

text \<open>
  \<^verbatim>\<open>for idx, img := range genResp.GeneratedImages\<close>: the index, the images left and the
  URLs gathered so far. The loop ends with the URLs, or at the first failed upload with
  the error response.
\<close>

fun upload_loop ::
  "services \<Rightarrow> config \<Rightarrow> world \<Rightarrow> nat \<Rightarrow> bytes list \<Rightarrow> string list option \<Rightarrow>
   ((APIGatewayProxyResponse \<times> go_error) + string list option) \<times> world" where
  "upload_loop svc cfg w idx [] urls = (Inr urls, w)"
| "upload_loop svc cfg w idx (img # imgs) urls =
     (let (t, w1) = time_Now svc w;
          key = object_key cfg idx t;
          (err, w2) = PutObject svc w1 (put_input cfg key img)
      in case err of
           Some e \<Rightarrow>
             (Inl (serverError (''failed to upload image: '' @ e)),
              log_Printf (''S3 upload failed for '' @ key @ '': '' @ e) w2)
         | None \<Rightarrow> upload_loop svc cfg w2 (Suc idx) imgs (append_slice urls (object_url cfg key)))"

definition handler ::
  "services \<Rightarrow> config \<Rightarrow> world \<Rightarrow> APIGatewayProxyRequest \<Rightarrow>
   (APIGatewayProxyResponse \<times> go_error) \<times> world" where
  "handler svc cfg w req =
     (case json_Unmarshal_result svc (req_Body req) of
        Inl err \<Rightarrow> (clientError 400 (''invalid JSON: '' @ err), w)
      | Inr in0 \<Rightarrow>
          if Prompt in0 = [] then (clientError 400 ''prompt is required'', w)
          else
            (let in1 = (if sint (NumberOfImages in0) \<le> 0 then in0\<lparr>NumberOfImages := 1\<rparr> else in0);
                 in2 = (if AspectRatio in1 = [] then in1\<lparr>AspectRatio := ''SQUARE''\<rparr> else in1);
                 genCfg0 = \<lparr>gc_NumberOfImages = NumberOfImages in2,
                            gc_AspectRatio = AspectRatio in2,
                            gc_PersonGeneration = []\<rparr>;
                 genCfg = (if PersonGeneration in2 \<noteq> []
                           then genCfg0\<lparr>gc_PersonGeneration := PersonGeneration in2\<rparr>
                           else genCfg0);
                 (genResp, w1) =
                   GenerateImages svc w ''imagen-4.0-generate-preview-06-06'' (Prompt in2) genCfg
             in case genResp of
                  Inl err \<Rightarrow>
                    (serverError (''image generation failed: '' @ err),
                     log_Printf (''GenAI error: '' @ err) w1)
                | Inr imgs \<Rightarrow>
                    (case upload_loop svc cfg w1 0 imgs None of
                       (Inl resp, w2) \<Rightarrow> (resp, w2)
                     | (Inr urls, w2) \<Rightarrow>
                         ((\<lparr>StatusCode = 200,
                            Headers = [(''Content-Type'', ''application/json'')],
                            Body = json_Marshal svc \<lparr>ImageURLs = urls\<rparr>\<rparr>, None), w2))))"

section \<open>Notions used to state the properties\<close>

text \<open>
  An ordinary path element: not empty, not a dot, not a dot-dot. A plain prefix is a
  folder prefix made of ordinary elements separated by single slashes, such as
  \<^verbatim>\<open>generated-images\<close> or \<^verbatim>\<open>a/b\<close>: no slash at its start or end, none doubled.
\<close>

definition plain_elem :: "string \<Rightarrow> bool" where
  "plain_elem e = (e \<noteq> [] \<and> e \<noteq> ''.'' \<and> e \<noteq> ''..'')"

definition plain_prefix :: "string \<Rightarrow> bool" where
  "plain_prefix p = list_all plain_elem (split_slash p)"

text \<open>The spec's timestamp \<^verbatim>\<open>YYYYMMDDThhmmss\<close>: fields of exactly four and two decimal
  digits, for the fields of a calendar date and time of day.\<close>

definition two_digits :: "int \<Rightarrow> string" where
  "two_digits x = [digit_char (nat x div 10), digit_char (nat x mod 10)]"

definition four_digits :: "int \<Rightarrow> string" where
  "four_digits x =
     [digit_char (nat x div 1000), digit_char (nat x div 100 mod 10),
      digit_char (nat x div 10 mod 10), digit_char (nat x mod 10)]"

definition calendar_time :: "time \<Rightarrow> bool" where
  "calendar_time t =
     (0 \<le> Year t \<and> Year t \<le> 9999 \<and> 1 \<le> Month t \<and> Month t \<le> 12 \<and>
      1 \<le> Day t \<and> Day t \<le> 31 \<and> 0 \<le> Hour t \<and> Hour t \<le> 23 \<and>
      0 \<le> Minute t \<and> Minute t \<le> 59 \<and> 0 \<le> Second t \<and> Second t \<le> 59)"

text \<open>
  In a run of the upload loop that starts at index \<open>idx\<close> when the clock has been read
  \<open>k\<close> times: the key and the \<^verbatim>\<open>PutObjectInput\<close> of the \<open>j\<close>-th image.
\<close>

definition loop_key :: "services \<Rightarrow> config \<Rightarrow> nat \<Rightarrow> nat \<Rightarrow> nat \<Rightarrow> string" where
  "loop_key svc cfg k idx j = object_key cfg (idx + j) (Now_result svc (k + j))"

definition loop_input ::
  "services \<Rightarrow> config \<Rightarrow> nat \<Rightarrow> nat \<Rightarrow> bytes list \<Rightarrow> nat \<Rightarrow> PutObjectInput" where
  "loop_input svc cfg k idx imgs j = put_input cfg (loop_key svc cfg k idx j) (imgs ! j)"

text \<open>
  The one call of the generation client that the handler makes for a decoded payload:
  the model, the prompt, and the configuration after the defaults are filled in.
\<close>

definition generation_call :: "requestPayload \<Rightarrow> gen_call" where
  "generation_call in0 =
     (''imagen-4.0-generate-preview-06-06'', Prompt in0,
      \<lparr>gc_NumberOfImages = (if sint (NumberOfImages in0) \<le> 0 then 1 else NumberOfImages in0),
       gc_AspectRatio = (if AspectRatio in0 = [] then ''SQUARE'' else AspectRatio in0),
       gc_PersonGeneration = PersonGeneration in0\<rparr>)"

section \<open>An example deployment\<close>

text \<open>
  Concrete bodies, services, settings and an empty world, on which the handler is
  evaluated. The decoder is given on six bodies; the string encoder only adds the
  quotes, which is what \<^verbatim>\<open>json.Marshal\<close> does for the URLs below; the generation result
  is fixed, the outcome of a \<^verbatim>\<open>PutObject\<close> call is chosen by the number of earlier calls,
  and the clock stands still.
\<close>

definition body_cat2 :: string where
  "body_cat2 = ''{\"prompt\":\"A cat\",\"numberOfImages\":2,\"aspectRatio\":\"SQUARE\"}''"

definition body_empty_prompt :: string where
  "body_empty_prompt = ''{\"prompt\":\"\"}''"

definition body_minus3 :: string where
  "body_minus3 = ''{\"prompt\":\"A cat\",\"numberOfImages\":-3}''"

definition body_one :: string where
  "body_one = ''{\"prompt\":\"A cat\",\"numberOfImages\":1}''"

definition body_not_json :: string where
  "body_not_json = ''not json''"

definition body_below_int32 :: string where
  "body_below_int32 = ''{\"prompt\":\"A cat\",\"numberOfImages\":-2147483649}''"

text \<open>
  The members of the example bodies that are JSON objects: \<^verbatim>\<open>numberOfImages\<close>,
  \<^verbatim>\<open>aspectRatio\<close>, \<^verbatim>\<open>personGeneration\<close> and \<^verbatim>\<open>prompt\<close>, an absent member at the zero
  value that the struct keeps for it.
\<close>

definition demo_fields :: "string \<Rightarrow> (int \<times> string \<times> string \<times> string) option" where
  "demo_fields b =
     (if b = body_cat2 then Some (2, ''SQUARE'', [], ''A cat'')
      else if b = body_empty_prompt then Some (0, [], [], [])
      else if b = body_minus3 then Some (- 3, [], [], ''A cat'')
      else if b = body_one then Some (1, [], [], ''A cat'')
      else if b = body_below_int32 then Some (- 2147483649, [], [], ''A cat'')
      else None)"

definition demo_Unmarshal :: "string \<Rightarrow> string + requestPayload" where
  "demo_Unmarshal b =
     (case demo_fields b of
        None \<Rightarrow> Inl ''invalid character 'o' in literal null (expecting 'u')''
      | Some (n, aspect, person, prompt) \<Rightarrow>
          (case int32_of_number n of
             Inl err \<Rightarrow> Inl err
           | Inr count \<Rightarrow>
               Inr \<lparr>NumberOfImages = count, AspectRatio = aspect, PersonGeneration = person,
                    Prompt = prompt\<rparr>))"

definition demo_json_string :: "string \<Rightarrow> string" where
  "demo_json_string s = [CHR 0x22] @ s @ [CHR 0x22]"

definition demo_time :: time where
  "demo_time = \<lparr>Year = 2025, Month = 8, Day = 5, Hour = 12, Minute = 34, Second = 56\<rparr>"

definition demo_services :: "(string + bytes list) \<Rightarrow> (nat \<Rightarrow> string option) \<Rightarrow> services" where
  "demo_services gen put =
     \<lparr>json_Unmarshal_result = demo_Unmarshal,
      json_string = demo_json_string,
      GenerateImages_result = (\<lambda>calls call. gen),
      PutObject_result = (\<lambda>calls inp. put (length calls)),
      Now_result = (\<lambda>n. demo_time)\<rparr>"

definition demo_config :: "string \<Rightarrow> config" where
  "demo_config prefix = \<lparr>bucketName = ''bucket'', folderPrefix = prefix, region = ''us-east-1''\<rparr>"

definition demo_world :: world where
  "demo_world = \<lparr>gen_calls = [], put_calls = [], store = Map.empty, now_calls = 0, log_lines = []\<rparr>"

section \<open>Paths and timestamps\<close>

text \<open>
  The examples of the documentation of \<^verbatim>\<open>path.Clean\<close> and \<^verbatim>\<open>path.Join\<close>, and some of
  the cases of their tests.
\<close>

lemma path_Clean_examples:
  "path_Clean ''a/c'' = ''a/c''" "path_Clean ''a//c'' = ''a/c''" "path_Clean ''a/c/.'' = ''a/c''"
  "path_Clean ''a/c/b/..'' = ''a/c''" "path_Clean ''/../a/c'' = ''/a/c''"
  "path_Clean ''/../a/b/../././/c'' = ''/a/c''" "path_Clean [] = ''.''"
  "path_Clean ''abc/'' = ''abc''" "path_Clean ''abc/def/../../..'' = ''..''"
  "path_Clean ''abc/../../././../def'' = ''../../def''" "path_Clean ''/'' = ''/''"
  by code_simp+

lemma path_Join_examples:
  "path_Join [''a'', ''b'', ''c''] = ''a/b/c''" "path_Join [''a'', ''b/c''] = ''a/b/c''"
  "path_Join [''a/b'', ''../../../xyz''] = ''../xyz''" "path_Join [[], []] = []"
  "path_Join [''a'', []] = ''a''" "path_Join [[], ''a''] = ''a''" "path_Join [''/'', ''a''] = ''/a''"
  by code_simp+

lemma split_slash_nonempty: "split_slash p \<noteq> []"
  by (induction p) (auto split: list.splits)

lemma split_slash_no_slash: "CHR ''/'' \<notin> set s \<Longrightarrow> split_slash s = [s]"
  by (induction s) auto

lemma split_slash_append:
  "split_slash (p @ CHR ''/'' # q) = split_slash p @ split_slash q"
proof (induction p)
  case Nil
  show ?case by simp
next
  case (Cons c p)
  obtain e es where es: "split_slash p = e # es"
    using split_slash_nonempty [of p] by (cases "split_slash p") auto
  with Cons show ?case by simp
qed

lemma join_slash_Cons: "es \<noteq> [] \<Longrightarrow> join_slash (e # es) = e @ ''/'' @ join_slash es"
  by (cases es) auto

lemma join_slash_append:
  "xs \<noteq> [] \<Longrightarrow> ys \<noteq> [] \<Longrightarrow> join_slash (xs @ ys) = join_slash xs @ ''/'' @ join_slash ys"
proof (induction xs)
  case Nil
  then show ?case by simp
next
  case (Cons x xs)
  show ?case
  proof (cases "xs = []")
    case True
    with Cons.prems show ?thesis by (simp add: join_slash_Cons)
  next
    case False
    with Cons show ?thesis by (simp add: join_slash_Cons)
  qed
qed

lemma join_split_slash: "join_slash (split_slash p) = p"
proof (induction p)
  case Nil
  show ?case by simp
next
  case (Cons c p)
  obtain e es where es: "split_slash p = e # es"
    using split_slash_nonempty [of p] by (cases "split_slash p") auto
  show ?case
  proof (cases "c = CHR ''/''")
    case True
    with Cons es show ?thesis by (simp add: join_slash_Cons)
  next
    case False
    with Cons es show ?thesis by (cases es) auto
  qed
qed

lemma clean_elems_plain:
  "list_all plain_elem es \<Longrightarrow> clean_elems rooted out es = out @ es"
  by (induction es arbitrary: out) (auto simp: plain_elem_def)

lemma plain_prefix_not_rooted: "plain_prefix p \<Longrightarrow> p \<noteq> [] \<and> hd p \<noteq> CHR ''/''"
  by (cases p) (auto simp: plain_prefix_def plain_elem_def)

lemma path_Join_plain:
  assumes p: "plain_prefix p" and n: "plain_elem n" "CHR ''/'' \<notin> set n"
  shows "path_Join [p, n] = p @ ''/'' @ n"
proof -
  from p have ne: "p \<noteq> []" and hd: "hd p \<noteq> CHR ''/''"
    using plain_prefix_not_rooted by auto
  have split: "split_slash (p @ ''/'' @ n) = split_slash p @ [n]"
    using split_slash_append [of p n] n by (simp add: split_slash_no_slash)
  have all: "list_all plain_elem (split_slash p @ [n])"
    using p n by (simp add: plain_prefix_def)
  have "clean_elems False [] (split_slash (p @ ''/'' @ n)) = split_slash p @ [n]"
    unfolding split using clean_elems_plain [OF all, of False "[]"] by simp
  moreover have "join_slash (split_slash p @ [n]) = p @ ''/'' @ n"
    using join_slash_append [of "split_slash p" "[n]"] split_slash_nonempty [of p]
    by (simp add: join_split_slash)
  ultimately show ?thesis
    using ne hd by (simp add: path_Join_def path_Clean_def Let_def)
qed

lemma path_Join_empty_prefix:
  assumes n: "plain_elem n" "CHR ''/'' \<notin> set n"
  shows "path_Join [[], n] = n"
proof -
  from n have ne: "n \<noteq> []" by (simp add: plain_elem_def)
  have hd: "hd n \<noteq> CHR ''/''" using n ne by (cases n) auto
  have "clean_elems False [] (split_slash n) = [n]"
    using n clean_elems_plain [of "[n]" False "[]"] by (simp add: split_slash_no_slash)
  then show ?thesis using ne hd by (simp add: path_Join_def path_Clean_def Let_def)
qed


lemma digit_char_0: "digit_char 0 = CHR ''0''"
  by code_simp

lemma replicate_2: "replicate 2 c = [c, c]"
  by (simp add: numeral_2_eq_2)

lemma replicate_3: "replicate 3 c = [c, c, c]"
  by (simp add: numeral_3_eq_3)

lemma digit_char_not_slash: "d < 10 \<Longrightarrow> digit_char d \<noteq> CHR ''/''"
proof
  assume d: "d < 10" and eq: "digit_char d = CHR ''/''"
  from eq have "of_char (char_of (48 + d)) = (of_char (CHR ''/'') :: nat)"
    by (simp add: digit_char_def)
  with d show False by simp
qed

lemma itoa_lt10: "n < 10 \<Longrightarrow> itoa n = [digit_char n]"
  by (subst itoa.simps) simp

lemma itoa_ge10: "10 \<le> n \<Longrightarrow> itoa n = itoa (n div 10) @ [digit_char (n mod 10)]"
  by (subst itoa.simps) simp

lemma slash_notin_itoa: "CHR ''/'' \<notin> set (itoa n)"
proof (induction n rule: itoa.induct)
  case (1 n)
  show ?case
  proof (cases "n < 10")
    case True
    then show ?thesis using digit_char_not_slash [of n] by (simp add: itoa_lt10)
  next
    case False
    then have "CHR ''/'' \<notin> set (itoa (n div 10))" using "1" by simp
    moreover have "digit_char (n mod 10) \<noteq> CHR ''/''"
      by (rule digit_char_not_slash) simp
    ultimately show ?thesis using False by (auto simp: itoa_ge10)
  qed
qed

lemma slash_notin_appendInt: "CHR ''/'' \<notin> set (appendInt x width)"
  using slash_notin_itoa by (auto simp: appendInt_def Let_def)

lemma slash_notin_time_Format: "CHR ''/'' \<notin> set (time_Format t)"
  by (simp add: time_Format_def slash_notin_appendInt)

lemma slash_notin_object_name: "CHR ''/'' \<notin> set (object_name idx t)"
  by (simp add: object_name_def slash_notin_itoa slash_notin_time_Format)

lemma plain_object_name: "plain_elem (object_name idx t)"
  by (simp add: object_name_def plain_elem_def)

lemma itoa_lt100: "10 \<le> n \<Longrightarrow> n < 100 \<Longrightarrow> itoa n = [digit_char (n div 10), digit_char (n mod 10)]"
  by (simp add: itoa_ge10 itoa_lt10)

lemma itoa_lt1000:
  "100 \<le> n \<Longrightarrow> n < 1000 \<Longrightarrow>
   itoa n = [digit_char (n div 100), digit_char (n div 10 mod 10), digit_char (n mod 10)]"
proof -
  assume n: "100 \<le> n" "n < 1000"
  then have "10 \<le> n div 10" "n div 10 < 100" by simp_all
  then have "itoa (n div 10) = [digit_char (n div 10 div 10), digit_char (n div 10 mod 10)]"
    by (rule itoa_lt100)
  moreover have "n div 10 div 10 = n div 100" by (simp add: div_mult2_eq [symmetric])
  ultimately show ?thesis using n by (simp add: itoa_ge10 [of n])
qed

lemma itoa_lt10000:
  "1000 \<le> n \<Longrightarrow> n < 10000 \<Longrightarrow>
   itoa n = [digit_char (n div 1000), digit_char (n div 100 mod 10),
             digit_char (n div 10 mod 10), digit_char (n mod 10)]"
proof -
  assume n: "1000 \<le> n" "n < 10000"
  then have "100 \<le> n div 10" "n div 10 < 1000" by simp_all
  then have "itoa (n div 10) =
      [digit_char (n div 10 div 100), digit_char (n div 10 div 10 mod 10), digit_char (n div 10 mod 10)]"
    by (rule itoa_lt1000)
  moreover have "n div 10 div 100 = n div 1000" "n div 10 div 10 = n div 100"
    by (simp_all add: div_mult2_eq [symmetric])
  ultimately show ?thesis using n by (simp add: itoa_ge10 [of n])
qed

lemma appendInt_two: "0 \<le> x \<Longrightarrow> x < 100 \<Longrightarrow> appendInt x 2 = two_digits x"
proof -
  assume x: "0 \<le> x" "x < 100"
  show ?thesis
  proof (cases "nat x < 10")
    case True
    with x show ?thesis
      by (simp add: appendInt_def two_digits_def itoa_lt10 digit_char_0 replicate_3 replicate_2)
  next
    case False
    with x show ?thesis
      by (simp add: appendInt_def two_digits_def itoa_lt100)
  qed
qed

lemma appendInt_four: "0 \<le> x \<Longrightarrow> x < 10000 \<Longrightarrow> appendInt x 4 = four_digits x"
proof -
  assume x: "0 \<le> x" "x < 10000"
  consider "nat x < 10" | "10 \<le> nat x" "nat x < 100" | "100 \<le> nat x" "nat x < 1000"
    | "1000 \<le> nat x" "nat x < 10000"
    using x by linarith
  then show ?thesis
  proof cases
    case 1
    then show ?thesis using x
      by (simp add: appendInt_def four_digits_def itoa_lt10 digit_char_0 replicate_3 replicate_2)
  next
    case 2
    then show ?thesis using x
      by (simp add: appendInt_def four_digits_def itoa_lt100 digit_char_0 replicate_3 replicate_2)
  next
    case 3
    then show ?thesis using x
      by (simp add: appendInt_def four_digits_def itoa_lt1000 digit_char_0)
  next
    case 4
    then show ?thesis using x
      by (simp add: appendInt_def four_digits_def itoa_lt10000)
  qed
qed

lemma time_Format_calendar:
  "calendar_time t \<Longrightarrow>
   time_Format t =
     four_digits (Year t) @ two_digits (Month t) @ two_digits (Day t) @ ''T'' @
     two_digits (Hour t) @ two_digits (Minute t) @ two_digits (Second t)"
  by (simp add: time_Format_def calendar_time_def appendInt_two appendInt_four)

section \<open>The upload loop\<close>

lemma PutObject_commit:
  "PutObject svc w inp =
     (case PutObject_result svc (put_calls w) inp of
        Some err \<Rightarrow> (Some err, w\<lparr>put_calls := put_calls w @ [inp]\<rparr>)
      | None \<Rightarrow> (None, w\<lparr>put_calls := put_calls w @ [inp], store := commit inp (store w)\<rparr>))"
  by (simp add: PutObject_def commit_def Let_def split: option.splits)

lemma loop_input_Suc:
  "loop_input svc cfg k idx (img # imgs) (Suc j) = loop_input svc cfg (Suc k) (Suc idx) imgs j"
  by (simp add: loop_input_def loop_key_def)

lemma loop_input_0:
  "loop_input svc cfg k idx (img # imgs) 0 = put_input cfg (object_key cfg idx (Now_result svc k)) img"
  by (simp add: loop_input_def loop_key_def)

lemma po_Key_loop_input: "po_Key (loop_input svc cfg k idx imgs j) = loop_key svc cfg k idx j"
  by (simp add: loop_input_def put_input_def)

lemma map_loop_input_Suc:
  "map (loop_input svc cfg k idx (img # imgs)) [0..<Suc n] =
   loop_input svc cfg k idx (img # imgs) 0 # map (loop_input svc cfg (Suc k) (Suc idx) imgs) [0..<n]"
  by (simp only: map_upt_Suc loop_input_Suc)

lemma upload_loop_success:
  "(\<And>j. j < length imgs \<Longrightarrow>
      PutObject_result svc
        (put_calls w @ map (loop_input svc cfg (now_calls w) idx imgs) [0..<j])
        (loop_input svc cfg (now_calls w) idx imgs j) = None) \<Longrightarrow>
   upload_loop svc cfg w idx imgs urls =
     (Inr (foldl append_slice urls
             (map (\<lambda>inp. object_url cfg (po_Key inp))
                (map (loop_input svc cfg (now_calls w) idx imgs) [0..<length imgs]))),
      w\<lparr>put_calls := put_calls w @ map (loop_input svc cfg (now_calls w) idx imgs) [0..<length imgs],
        store := foldl (\<lambda>s inp. commit inp s) (store w)
                   (map (loop_input svc cfg (now_calls w) idx imgs) [0..<length imgs]),
        now_calls := now_calls w + length imgs\<rparr>)"
proof (induction imgs arbitrary: w idx urls)
  case Nil
  show ?case by simp
next
  case (Cons img imgs)
  let ?k = "now_calls w"
  let ?inp0 = "loop_input svc cfg ?k idx (img # imgs) 0"
  let ?w2 = "w\<lparr>now_calls := Suc ?k, put_calls := put_calls w @ [?inp0],
               store := commit ?inp0 (store w)\<rparr>"
  have first: "PutObject_result svc (put_calls w) ?inp0 = None"
    using Cons.prems [of 0] by simp
  have rest: "PutObject_result svc
        (put_calls ?w2 @ map (loop_input svc cfg (now_calls ?w2) (Suc idx) imgs) [0..<j])
        (loop_input svc cfg (now_calls ?w2) (Suc idx) imgs j) = None" if "j < length imgs" for j
    using Cons.prems [of "Suc j"] that
    by (simp add: map_loop_input_Suc loop_input_Suc del: upt_Suc)
  have step: "upload_loop svc cfg w idx (img # imgs) urls =
      upload_loop svc cfg ?w2 (Suc idx) imgs (append_slice urls (object_url cfg (po_Key ?inp0)))"
    using first
    by (simp add: time_Now_def PutObject_commit loop_input_0 put_input_def Let_def)
  note ih = Cons.IH [of ?w2 "Suc idx" "append_slice urls (object_url cfg (po_Key ?inp0))", OF rest]
  show ?case
    unfolding step using ih by (simp add: map_loop_input_Suc del: upt_Suc)
qed

lemma upload_loop_failure:
  "i < length imgs \<Longrightarrow>
   (\<And>j. j < i \<Longrightarrow>
      PutObject_result svc
        (put_calls w @ map (loop_input svc cfg (now_calls w) idx imgs) [0..<j])
        (loop_input svc cfg (now_calls w) idx imgs j) = None) \<Longrightarrow>
   PutObject_result svc
        (put_calls w @ map (loop_input svc cfg (now_calls w) idx imgs) [0..<i])
        (loop_input svc cfg (now_calls w) idx imgs i) = Some e \<Longrightarrow>
   upload_loop svc cfg w idx imgs urls =
     (Inl (serverError (''failed to upload image: '' @ e)),
      w\<lparr>put_calls := put_calls w @ map (loop_input svc cfg (now_calls w) idx imgs) [0..<Suc i],
        store := foldl (\<lambda>s inp. commit inp s) (store w)
                   (map (loop_input svc cfg (now_calls w) idx imgs) [0..<i]),
        now_calls := now_calls w + Suc i,
        log_lines := log_lines w @
          [''S3 upload failed for '' @ loop_key svc cfg (now_calls w) idx i @ '': '' @ e]\<rparr>)"
proof (induction imgs arbitrary: w idx urls i)
  case Nil
  then show ?case by simp
next
  case (Cons img imgs)
  let ?k = "now_calls w"
  let ?inp0 = "loop_input svc cfg ?k idx (img # imgs) 0"
  show ?case
  proof (cases i)
    case 0
    with Cons.prems(3) have "PutObject_result svc (put_calls w) ?inp0 = Some e" by simp
    then show ?thesis using 0
      by (simp add: time_Now_def PutObject_commit loop_input_0 put_input_def log_Printf_def
          loop_key_def Let_def)
  next
    case (Suc i')
    let ?w2 = "w\<lparr>now_calls := Suc ?k, put_calls := put_calls w @ [?inp0],
                 store := commit ?inp0 (store w)\<rparr>"
    have first: "PutObject_result svc (put_calls w) ?inp0 = None"
      using Cons.prems(2) [of 0] Suc by simp
    have lt: "i' < length imgs" using Cons.prems(1) Suc by simp
    have rest: "PutObject_result svc
          (put_calls ?w2 @ map (loop_input svc cfg (now_calls ?w2) (Suc idx) imgs) [0..<j])
          (loop_input svc cfg (now_calls ?w2) (Suc idx) imgs j) = None" if "j < i'" for j
      using Cons.prems(2) [of "Suc j"] that Suc
      by (simp add: map_loop_input_Suc loop_input_Suc del: upt_Suc)
    have fail: "PutObject_result svc
          (put_calls ?w2 @ map (loop_input svc cfg (now_calls ?w2) (Suc idx) imgs) [0..<i'])
          (loop_input svc cfg (now_calls ?w2) (Suc idx) imgs i') = Some e"
      using Cons.prems(3) Suc
      by (simp add: map_loop_input_Suc loop_input_Suc del: upt_Suc)
    have step: "upload_loop svc cfg w idx (img # imgs) urls =
        upload_loop svc cfg ?w2 (Suc idx) imgs (append_slice urls (object_url cfg (po_Key ?inp0)))"
      using first
      by (simp add: time_Now_def PutObject_commit loop_input_0 put_input_def Let_def)
    have key: "loop_key svc cfg (Suc ?k) (Suc idx) i' = loop_key svc cfg ?k idx (Suc i')"
      by (simp add: loop_key_def)
    note ih = Cons.IH [of i' ?w2 "Suc idx" "append_slice urls (object_url cfg (po_Key ?inp0))",
        OF lt rest fail]
    show ?thesis
      unfolding step Suc using ih by (simp add: map_loop_input_Suc key del: upt_Suc)
  qed
qed

lemma upload_loop_error_shape:
  "upload_loop svc cfg w idx imgs urls = (Inl r, w') \<Longrightarrow> \<exists>msg. r = serverError msg"
proof (induction imgs arbitrary: w idx urls)
  case Nil
  then show ?case by simp
next
  case (Cons img imgs)
  then show ?case
    by (auto simp: Let_def split: prod.splits option.splits)
qed

lemma upload_loop_gen_calls:
  "gen_calls (snd (upload_loop svc cfg w idx imgs urls)) = gen_calls w"
proof (induction imgs arbitrary: w idx urls)
  case Nil
  show ?case by simp
next
  case (Cons img imgs)
  show ?case
  proof (cases "PutObject_result svc (put_calls w)
      (put_input cfg (object_key cfg idx (Now_result svc (now_calls w))) img)")
    case None
    then show ?thesis
      by (simp add: time_Now_def PutObject_commit Let_def Cons.IH)
  next
    case (Some e)
    then show ?thesis
      by (simp add: time_Now_def PutObject_commit Let_def log_Printf_def)
  qed
qed

lemma upload_loop_status:
  "upload_loop svc cfg w idx imgs urls = (Inl r, w') \<Longrightarrow> StatusCode (fst r) = 500"
  using upload_loop_error_shape [of svc cfg w idx imgs urls r w']
  by (auto simp: serverError_def)

text \<open>The key of an upload, for an empty and for a plain folder prefix.\<close>

lemma object_key_empty_prefix:
  "folderPrefix cfg = [] \<Longrightarrow> object_key cfg idx t = object_name idx t"
  using path_Join_empty_prefix [OF plain_object_name slash_notin_object_name]
  by (simp add: object_key_def)

lemma object_key_plain_prefix:
  "plain_prefix (folderPrefix cfg) \<Longrightarrow>
   object_key cfg idx t = folderPrefix cfg @ ''/'' @ object_name idx t"
  using path_Join_plain [OF _ plain_object_name slash_notin_object_name]
  by (simp add: object_key_def)

section \<open>The handler on a valid request\<close>

lemma handler_valid:
  "json_Unmarshal_result svc (req_Body req) = Inr in0 \<Longrightarrow> Prompt in0 \<noteq> [] \<Longrightarrow>
   handler svc cfg w req =
     (case GenerateImages_result svc (gen_calls w) (generation_call in0) of
        Inl err \<Rightarrow>
          (serverError (''image generation failed: '' @ err),
           w\<lparr>gen_calls := gen_calls w @ [generation_call in0],
             log_lines := log_lines w @ [''GenAI error: '' @ err]\<rparr>)
      | Inr imgs \<Rightarrow>
          (case upload_loop svc cfg (w\<lparr>gen_calls := gen_calls w @ [generation_call in0]\<rparr>) 0 imgs None of
             (Inl resp, w2) \<Rightarrow> (resp, w2)
           | (Inr urls, w2) \<Rightarrow>
               ((\<lparr>StatusCode = 200,
                  Headers = [(''Content-Type'', ''application/json'')],
                  Body = json_Marshal svc \<lparr>ImageURLs = urls\<rparr>\<rparr>, None), w2)))"
proof -
  assume parse: "json_Unmarshal_result svc (req_Body req) = Inr in0" and prompt: "Prompt in0 \<noteq> []"
  show ?thesis
    by (cases "sint (NumberOfImages in0) \<le> 0"; cases "AspectRatio in0 = []";
        cases "PersonGeneration in0 = []")
      (simp_all add: handler_def parse prompt generation_call_def GenerateImages_def
        log_Printf_def Let_def split: sum.splits)
qed

lemma foldl_append_slice_Some: "foldl append_slice (Some xs) us = Some (xs @ us)"
  by (induction us arbitrary: xs) (simp_all add: append_slice_def)

lemma foldl_append_slice_None:
  "foldl append_slice None us = (if us = [] then None else Some us)"
  by (cases us) (simp_all add: append_slice_def foldl_append_slice_Some)

lemma dom_foldl_commit:
  "dom (foldl (\<lambda>s inp. commit inp s) s xs) = dom s \<union> (\<lambda>x. (po_Bucket x, po_Key x)) ` set xs"
  by (induction xs arbitrary: s) (auto simp: commit_def)

lemma handler_success:
  assumes parse: "json_Unmarshal_result svc (req_Body req) = Inr in0"
    and prompt: "Prompt in0 \<noteq> []"
    and gen: "GenerateImages_result svc (gen_calls w) (generation_call in0) = Inr imgs"
    and ok: "\<And>j. j < length imgs \<Longrightarrow>
      PutObject_result svc
        (put_calls w @ map (loop_input svc cfg (now_calls w) 0 imgs) [0..<j])
        (loop_input svc cfg (now_calls w) 0 imgs j) = None"
  shows "handler svc cfg w req =
    ((\<lparr>StatusCode = 200, Headers = [(''Content-Type'', ''application/json'')],
       Body = json_Marshal svc
         \<lparr>ImageURLs = (if imgs = [] then None
            else Some (map (\<lambda>j. object_url cfg (loop_key svc cfg (now_calls w) 0 j))
                         [0..<length imgs]))\<rparr>\<rparr>, None),
     w\<lparr>gen_calls := gen_calls w @ [generation_call in0],
       put_calls := put_calls w @ map (loop_input svc cfg (now_calls w) 0 imgs) [0..<length imgs],
       store := foldl (\<lambda>s inp. commit inp s) (store w)
                  (map (loop_input svc cfg (now_calls w) 0 imgs) [0..<length imgs]),
       now_calls := now_calls w + length imgs\<rparr>)"
proof -
  let ?w1 = "w\<lparr>gen_calls := gen_calls w @ [generation_call in0]\<rparr>"
  have ok1: "PutObject_result svc
        (put_calls ?w1 @ map (loop_input svc cfg (now_calls ?w1) 0 imgs) [0..<j])
        (loop_input svc cfg (now_calls ?w1) 0 imgs j) = None" if "j < length imgs" for j
    using ok [OF that] by simp
  note loop = upload_loop_success [of imgs svc ?w1 cfg 0 None, OF ok1]
  have urls: "foldl append_slice None
      (map (\<lambda>inp. object_url cfg (po_Key inp))
        (map (loop_input svc cfg (now_calls w) 0 imgs) [0..<length imgs])) =
      (if imgs = [] then None
       else Some (map (\<lambda>j. object_url cfg (loop_key svc cfg (now_calls w) 0 j)) [0..<length imgs]))"
    by (simp add: foldl_append_slice_None po_Key_loop_input comp_def)
  show ?thesis
    unfolding handler_valid [OF parse prompt] gen using loop urls by simp
qed

lemma handler_upload_failure:
  assumes parse: "json_Unmarshal_result svc (req_Body req) = Inr in0"
    and prompt: "Prompt in0 \<noteq> []"
    and gen: "GenerateImages_result svc (gen_calls w) (generation_call in0) = Inr imgs"
    and i: "i < length imgs"
    and ok: "\<And>j. j < i \<Longrightarrow>
      PutObject_result svc
        (put_calls w @ map (loop_input svc cfg (now_calls w) 0 imgs) [0..<j])
        (loop_input svc cfg (now_calls w) 0 imgs j) = None"
    and fail: "PutObject_result svc
        (put_calls w @ map (loop_input svc cfg (now_calls w) 0 imgs) [0..<i])
        (loop_input svc cfg (now_calls w) 0 imgs i) = Some e"
  shows "handler svc cfg w req =
    (serverError (''failed to upload image: '' @ e),
     w\<lparr>gen_calls := gen_calls w @ [generation_call in0],
       put_calls := put_calls w @ map (loop_input svc cfg (now_calls w) 0 imgs) [0..<Suc i],
       store := foldl (\<lambda>s inp. commit inp s) (store w)
                  (map (loop_input svc cfg (now_calls w) 0 imgs) [0..<i]),
       now_calls := now_calls w + Suc i,
       log_lines := log_lines w @
         [''S3 upload failed for '' @ loop_key svc cfg (now_calls w) 0 i @ '': '' @ e]\<rparr>)"
proof -
  let ?w1 = "w\<lparr>gen_calls := gen_calls w @ [generation_call in0]\<rparr>"
  have ok1: "PutObject_result svc
        (put_calls ?w1 @ map (loop_input svc cfg (now_calls ?w1) 0 imgs) [0..<j])
        (loop_input svc cfg (now_calls ?w1) 0 imgs j) = None" if "j < i" for j
    using ok [OF that] by simp
  have fail1: "PutObject_result svc
        (put_calls ?w1 @ map (loop_input svc cfg (now_calls ?w1) 0 imgs) [0..<i])
        (loop_input svc cfg (now_calls ?w1) 0 imgs i) = Some e"
    using fail by simp
  note loop = upload_loop_failure [of i imgs svc ?w1 cfg 0 e None, OF i ok1 fail1]
  show ?thesis
    unfolding handler_valid [OF parse prompt] gen using loop by (simp del: upt_Suc)
qed

lemma upload_loop_put_calls:
  "\<exists>m\<le>length imgs.
     put_calls (snd (upload_loop svc cfg w idx imgs urls)) =
       put_calls w @ map (loop_input svc cfg (now_calls w) idx imgs) [0..<m]"
proof (induction imgs arbitrary: w idx urls)
  case Nil
  show ?case by simp
next
  case (Cons img imgs)
  let ?k = "now_calls w"
  let ?inp0 = "loop_input svc cfg ?k idx (img # imgs) 0"
  show ?case
  proof (cases "PutObject_result svc (put_calls w) ?inp0")
    case (Some e)
    then have "put_calls (snd (upload_loop svc cfg w idx (img # imgs) urls)) =
        put_calls w @ map (loop_input svc cfg ?k idx (img # imgs)) [0..<1]"
      by (simp add: time_Now_def PutObject_commit loop_input_0 put_input_def Let_def
          log_Printf_def)
    then show ?thesis by (intro exI [of _ 1]) simp
  next
    case None
    let ?w2 = "w\<lparr>now_calls := Suc ?k, put_calls := put_calls w @ [?inp0],
                 store := commit ?inp0 (store w)\<rparr>"
    have step: "upload_loop svc cfg w idx (img # imgs) urls =
        upload_loop svc cfg ?w2 (Suc idx) imgs (append_slice urls (object_url cfg (po_Key ?inp0)))"
      using None
      by (simp add: time_Now_def PutObject_commit loop_input_0 put_input_def Let_def)
    obtain m where m: "m \<le> length imgs"
      "put_calls (snd (upload_loop svc cfg ?w2 (Suc idx) imgs
          (append_slice urls (object_url cfg (po_Key ?inp0))))) =
        put_calls ?w2 @ map (loop_input svc cfg (now_calls ?w2) (Suc idx) imgs) [0..<m]"
      using Cons.IH [of ?w2 "Suc idx"] by blast
    have "put_calls (snd (upload_loop svc cfg w idx (img # imgs) urls)) =
        put_calls w @ map (loop_input svc cfg ?k idx (img # imgs)) [0..<Suc m]"
      unfolding step m(2) by (simp add: map_loop_input_Suc del: upt_Suc)
    with m(1) show ?thesis by (intro exI [of _ "Suc m"]) simp
  qed
qed

lemma handler_put_calls:
  assumes parse: "json_Unmarshal_result svc (req_Body req) = Inr in0"
    and prompt: "Prompt in0 \<noteq> []"
    and gen: "GenerateImages_result svc (gen_calls w) (generation_call in0) = Inr imgs"
  shows "\<exists>m\<le>length imgs.
     put_calls (snd (handler svc cfg w req)) =
       put_calls w @ map (loop_input svc cfg (now_calls w) 0 imgs) [0..<m]"
proof -
  let ?w1 = "w\<lparr>gen_calls := gen_calls w @ [generation_call in0]\<rparr>"
  have "put_calls (snd (handler svc cfg w req)) =
      put_calls (snd (upload_loop svc cfg ?w1 0 imgs None))"
    unfolding handler_valid [OF parse prompt] gen
    by (simp split: prod.splits sum.splits)
  then show ?thesis
    using upload_loop_put_calls [of imgs svc cfg ?w1 0 None] by simp
qed

section \<open>The example deployment, evaluated\<close>

lemma demo_bodies_distinct:
  "body_cat2 \<noteq> body_empty_prompt" "body_cat2 \<noteq> body_minus3" "body_cat2 \<noteq> body_one"
  "body_cat2 \<noteq> body_not_json" "body_empty_prompt \<noteq> body_minus3"
  "body_empty_prompt \<noteq> body_one" "body_empty_prompt \<noteq> body_not_json"
  "body_minus3 \<noteq> body_one" "body_minus3 \<noteq> body_not_json" "body_one \<noteq> body_not_json"
  "body_below_int32 \<noteq> body_cat2" "body_below_int32 \<noteq> body_empty_prompt"
  "body_below_int32 \<noteq> body_minus3" "body_below_int32 \<noteq> body_one"
  "body_not_json \<noteq> body_below_int32"
  by (simp_all add: body_cat2_def body_empty_prompt_def body_minus3_def body_one_def
      body_not_json_def body_below_int32_def)

lemma demo_fields_simps:
  "demo_fields body_cat2 = Some (2, ''SQUARE'', [], ''A cat'')"
  "demo_fields body_empty_prompt = Some (0, [], [], [])"
  "demo_fields body_minus3 = Some (- 3, [], [], ''A cat'')"
  "demo_fields body_one = Some (1, [], [], ''A cat'')"
  "demo_fields body_below_int32 = Some (- 2147483649, [], [], ''A cat'')"
  "demo_fields body_not_json = None"
  using demo_bodies_distinct by (simp_all add: demo_fields_def)

lemma int32_of_number_in_range:
  "- (2 ^ 31) \<le> n \<Longrightarrow> n < 2 ^ 31 \<Longrightarrow> int32_of_number n = Inr (word_of_int n)"
  by (simp add: int32_of_number_def)

lemma digit_chars:
  "digit_char 0 = CHR ''0''" "digit_char (Suc 0) = CHR ''1''" "digit_char 2 = CHR ''2''"
  "digit_char 3 = CHR ''3''" "digit_char 4 = CHR ''4''" "digit_char 5 = CHR ''5''"
  "digit_char 6 = CHR ''6''" "digit_char 7 = CHR ''7''" "digit_char 8 = CHR ''8''"
  "digit_char 9 = CHR ''9''"
  by code_simp+

lemma itoa_below_int32: "itoa 2147483649 = ''2147483649''"
  by (simp add: itoa_ge10 itoa_lt10 digit_chars)

lemma int32_of_number_below:
  "int32_of_number (- 2147483649) =
     Inl ''json: cannot unmarshal number -2147483649 into Go struct field requestPayload.numberOfImages of type int32''"
  by (simp add: int32_of_number_def itoa_below_int32)

lemma demo_Unmarshal_simps:
  "demo_Unmarshal body_cat2 =
     Inr \<lparr>NumberOfImages = 2, AspectRatio = ''SQUARE'', PersonGeneration = [], Prompt = ''A cat''\<rparr>"
  "demo_Unmarshal body_empty_prompt =
     Inr \<lparr>NumberOfImages = 0, AspectRatio = [], PersonGeneration = [], Prompt = []\<rparr>"
  "demo_Unmarshal body_minus3 =
     Inr \<lparr>NumberOfImages = - 3, AspectRatio = [], PersonGeneration = [], Prompt = ''A cat''\<rparr>"
  "demo_Unmarshal body_one =
     Inr \<lparr>NumberOfImages = 1, AspectRatio = [], PersonGeneration = [], Prompt = ''A cat''\<rparr>"
  "demo_Unmarshal body_not_json = Inl ''invalid character 'o' in literal null (expecting 'u')''"
  by (simp_all add: demo_Unmarshal_def demo_fields_simps int32_of_number_in_range)

lemma demo_Unmarshal_below_int32:
  "demo_Unmarshal body_below_int32 =
     Inl ''json: cannot unmarshal number -2147483649 into Go struct field requestPayload.numberOfImages of type int32''"
  by (simp add: demo_Unmarshal_def demo_fields_simps int32_of_number_below)

lemma demo_services_simps:
  "json_Unmarshal_result (demo_services gen put) = demo_Unmarshal"
  "json_string (demo_services gen put) = demo_json_string"
  "GenerateImages_result (demo_services gen put) calls call = gen"
  "PutObject_result (demo_services gen put) puts inp = put (length puts)"
  "Now_result (demo_services gen put) n = demo_time"
  by (simp_all add: demo_services_def)

lemma demo_world_simps:
  "gen_calls demo_world = []" "put_calls demo_world = []" "now_calls demo_world = 0"
  "log_lines demo_world = []" "store demo_world = Map.empty"
  by (simp_all add: demo_world_def)

lemma demo_time_Format: "time_Format demo_time = ''20250805T123456''"
  by code_simp

lemma itoa_small: "itoa 0 = ''0''" "itoa (Suc 0) = ''1''" "itoa 2 = ''2''"
  by code_simp+

lemma demo_plain_prefix: "plain_prefix ''generated-images''"
  by code_simp

lemma demo_keys:
  "object_key (demo_config []) 0 demo_time = ''imagen_0_20250805T123456.png''"
  "object_key (demo_config []) (Suc 0) demo_time = ''imagen_1_20250805T123456.png''"
  "object_key (demo_config []) 2 demo_time = ''imagen_2_20250805T123456.png''"
  "object_key (demo_config ''generated-images'') 0 demo_time =
     ''generated-images/imagen_0_20250805T123456.png''"
  "object_key (demo_config ''generated-images'') (Suc 0) demo_time =
     ''generated-images/imagen_1_20250805T123456.png''"
  by (simp_all add: object_key_empty_prefix object_key_plain_prefix demo_config_def
      demo_plain_prefix object_name_def itoa_small demo_time_Format)

lemma demo_key_trailing_slash:
  "object_key (demo_config ''out/'') 0 demo_time = ''out/imagen_0_20250805T123456.png''"
  by code_simp

lemma demo_loop_key:
  "loop_key (demo_services gen put) cfg k idx j = object_key cfg (idx + j) demo_time"
  by (simp add: loop_key_def demo_services_simps)

lemma demo_config_simps:
  "bucketName (demo_config p) = ''bucket''" "folderPrefix (demo_config p) = p"
  "region (demo_config p) = ''us-east-1''"
  by (simp_all add: demo_config_def)

lemma demo_calendar_time: "calendar_time demo_time"
  by (simp add: calendar_time_def demo_time_def)

section \<open>Properties of the handler\<close>

text \<open>
  Claim C1, as amended. For a valid request, when the generation call succeeds and every
  upload succeeds, the handler answers with status 200 and a list holding exactly one URL
  for each image the generation client returned, in the order of the images: the j-th
  URL is the URL of the key under which the j-th image was uploaded. (So there are k URLs
  when the client returns the k images asked for; with no image the list is nil.)
\<close>

theorem one_url_per_generated_image:
  assumes "json_Unmarshal_result svc (req_Body req) = Inr in0" and "Prompt in0 \<noteq> []"
    and "GenerateImages_result svc (gen_calls w) (generation_call in0) = Inr imgs"
    and "\<forall>j<length imgs.
      PutObject_result svc
        (put_calls w @ map (loop_input svc cfg (now_calls w) 0 imgs) [0..<j])
        (loop_input svc cfg (now_calls w) 0 imgs j) = None"
  shows "fst (handler svc cfg w req) =
      (\<lparr>StatusCode = 200, Headers = [(''Content-Type'', ''application/json'')],
        Body = json_Marshal svc
          \<lparr>ImageURLs = (if imgs = [] then None
             else Some (map (\<lambda>j. object_url cfg (loop_key svc cfg (now_calls w) 0 j))
                          [0..<length imgs]))\<rparr>\<rparr>, None) \<and>
    put_calls (snd (handler svc cfg w req)) =
      put_calls w @
      map (\<lambda>j. put_input cfg (loop_key svc cfg (now_calls w) 0 j) (imgs ! j)) [0..<length imgs]"
proof -
  have ok: "PutObject_result svc
        (put_calls w @ map (loop_input svc cfg (now_calls w) 0 imgs) [0..<j])
        (loop_input svc cfg (now_calls w) 0 imgs j) = None" if "j < length imgs" for j
    using assms(4) that by blast
  note run = handler_success [OF assms(1-3) ok]
  show ?thesis
    using run by (simp add: loop_input_def)
qed

theorem one_url_per_generated_image_witness:
  "fst (handler (demo_services (Inr [[1, 2, 3], [4, 5]]) (\<lambda>n. None))
          (demo_config ''generated-images'') demo_world \<lparr>req_Body = body_cat2\<rparr>) =
     (\<lparr>StatusCode = 200, Headers = [(''Content-Type'', ''application/json'')],
       Body = ''{\"imageUrls\":[\"https://bucket.s3.us-east-1.amazonaws.com/generated-images/imagen_0_20250805T123456.png\",\"https://bucket.s3.us-east-1.amazonaws.com/generated-images/imagen_1_20250805T123456.png\"]}''\<rparr>,
      None) \<and>
   map po_Body (put_calls (snd (handler (demo_services (Inr [[1, 2, 3], [4, 5]]) (\<lambda>n. None))
          (demo_config ''generated-images'') demo_world \<lparr>req_Body = body_cat2\<rparr>))) =
     [[1, 2, 3], [4, 5]]"
proof -
  note run = one_url_per_generated_image [of "demo_services (Inr [[1, 2, 3], [4, 5]]) (\<lambda>n. None)"
      "\<lparr>req_Body = body_cat2\<rparr>"
      "\<lparr>NumberOfImages = 2, AspectRatio = ''SQUARE'', PersonGeneration = [], Prompt = ''A cat''\<rparr>"
      demo_world "[[1, 2, 3], [4, 5]]" "demo_config ''generated-images''"]
  have two: "[0..<2] = [0, Suc 0]"
    by (simp add: upt_rec)
  show ?thesis
    using run
    by (simp add: demo_services_simps demo_Unmarshal_simps demo_world_simps demo_loop_key
        demo_keys demo_config_simps json_Marshal_def demo_json_string_def object_url_def
        put_input_def two)
qed

text \<open>
  The claim as stated fails when the client returns fewer images than asked for: a
  request for two images, a client that succeeds with one image, uploads that succeed,
  and a response with one URL.
\<close>

theorem fewer_images_than_requested:
  "json_Unmarshal_result (demo_services (Inr [[1, 2, 3]]) (\<lambda>n. None)) body_cat2 =
     Inr \<lparr>NumberOfImages = 2, AspectRatio = ''SQUARE'', PersonGeneration = [], Prompt = ''A cat''\<rparr> \<and>
   gen_calls (snd (handler (demo_services (Inr [[1, 2, 3]]) (\<lambda>n. None)) (demo_config [])
          demo_world \<lparr>req_Body = body_cat2\<rparr>)) =
     [(''imagen-4.0-generate-preview-06-06'', ''A cat'',
       \<lparr>gc_NumberOfImages = 2, gc_AspectRatio = ''SQUARE'', gc_PersonGeneration = []\<rparr>)] \<and>
   fst (handler (demo_services (Inr [[1, 2, 3]]) (\<lambda>n. None)) (demo_config [])
          demo_world \<lparr>req_Body = body_cat2\<rparr>) =
     (\<lparr>StatusCode = 200, Headers = [(''Content-Type'', ''application/json'')],
       Body = ''{\"imageUrls\":[\"https://bucket.s3.us-east-1.amazonaws.com/imagen_0_20250805T123456.png\"]}''\<rparr>,
      None)"
proof -
  note run = handler_success [of "demo_services (Inr [[1, 2, 3]]) (\<lambda>n. None)"
      "\<lparr>req_Body = body_cat2\<rparr>"
      "\<lparr>NumberOfImages = 2, AspectRatio = ''SQUARE'', PersonGeneration = [], Prompt = ''A cat''\<rparr>"
      demo_world "[[1, 2, 3]]" "demo_config []"]
  show ?thesis
    using run
    by (simp add: demo_services_simps demo_Unmarshal_simps demo_world_simps demo_loop_key
        demo_keys demo_config_simps json_Marshal_def demo_json_string_def object_url_def
        generation_call_def)
qed

text \<open>
  Claim C2. When the body decodes and the prompt is empty (an absent prompt decodes to
  the empty string), the handler answers with status 400 and the plain text "prompt is
  required", and the world is unchanged: the generation client is not called and nothing
  is uploaded.
\<close>

theorem empty_prompt_is_400:
  "json_Unmarshal_result svc (req_Body req) = Inr in0 \<Longrightarrow> Prompt in0 = [] \<Longrightarrow>
   handler svc cfg w req =
     ((\<lparr>StatusCode = 400, Headers = [(''Content-Type'', ''text/plain'')],
        Body = ''prompt is required''\<rparr>, None), w)"
  by (simp add: handler_def clientError_def)

theorem empty_prompt_is_400_witness:
  "handler (demo_services (Inr []) (\<lambda>n. None)) (demo_config []) demo_world
     \<lparr>req_Body = body_empty_prompt\<rparr> =
   ((\<lparr>StatusCode = 400, Headers = [(''Content-Type'', ''text/plain'')],
      Body = ''prompt is required''\<rparr>, None), demo_world)"
  using empty_prompt_is_400 [of "demo_services (Inr []) (\<lambda>n. None)" "\<lparr>req_Body = body_empty_prompt\<rparr>"
      "\<lparr>NumberOfImages = 0, AspectRatio = [], PersonGeneration = [], Prompt = []\<rparr>"
      "demo_config []" demo_world]
  by (simp add: demo_services_simps demo_Unmarshal_simps)

text \<open>
  Claim C3. For a valid request, when the generation call fails, the handler answers with
  status 500 and the upstream error text after "image generation failed: "; the
  generation client has been called exactly once more (no retry), no \<^verbatim>\<open>PutObject\<close> call was
  made and the store is as it was.
\<close>

theorem generation_failure_is_500:
  assumes "json_Unmarshal_result svc (req_Body req) = Inr in0" and "Prompt in0 \<noteq> []"
    and "GenerateImages_result svc (gen_calls w) (generation_call in0) = Inl err"
  shows "fst (handler svc cfg w req) =
           (\<lparr>StatusCode = 500, Headers = [(''Content-Type'', ''text/plain'')],
             Body = ''image generation failed: '' @ err\<rparr>, None) \<and>
         gen_calls (snd (handler svc cfg w req)) = gen_calls w @ [generation_call in0] \<and>
         put_calls (snd (handler svc cfg w req)) = put_calls w \<and>
         store (snd (handler svc cfg w req)) = store w"
  using assms by (simp add: handler_valid serverError_def)

theorem generation_failure_is_500_witness:
  "fst (handler (demo_services (Inl ''quota exceeded'') (\<lambda>n. None)) (demo_config []) demo_world
          \<lparr>req_Body = body_cat2\<rparr>) =
     (\<lparr>StatusCode = 500, Headers = [(''Content-Type'', ''text/plain'')],
       Body = ''image generation failed: quota exceeded''\<rparr>, None) \<and>
   gen_calls (snd (handler (demo_services (Inl ''quota exceeded'') (\<lambda>n. None)) (demo_config [])
          demo_world \<lparr>req_Body = body_cat2\<rparr>)) =
     [(''imagen-4.0-generate-preview-06-06'', ''A cat'',
       \<lparr>gc_NumberOfImages = 2, gc_AspectRatio = ''SQUARE'', gc_PersonGeneration = []\<rparr>)] \<and>
   put_calls (snd (handler (demo_services (Inl ''quota exceeded'') (\<lambda>n. None)) (demo_config [])
          demo_world \<lparr>req_Body = body_cat2\<rparr>)) = []"
  using generation_failure_is_500 [of "demo_services (Inl ''quota exceeded'') (\<lambda>n. None)"
      "\<lparr>req_Body = body_cat2\<rparr>"
      "\<lparr>NumberOfImages = 2, AspectRatio = ''SQUARE'', PersonGeneration = [], Prompt = ''A cat''\<rparr>"
      demo_world "''quota exceeded''" "demo_config []"]
  by (simp add: demo_services_simps demo_Unmarshal_simps demo_world_simps generation_call_def)

text \<open>
  Claim C4. For a valid request, when the uploads of images 0 to i-1 succeed and the upload
  of image i fails, the handler answers with status 500 and the plain text "failed to
  upload image: " followed by the error, with no list of URLs; \<^verbatim>\<open>PutObject\<close> has
  been called for images 0 to i and for no later image, and the store holds the objects
  of images 0 to i-1: they are not rolled back.
\<close>

theorem upload_failure_aborts:
  assumes "json_Unmarshal_result svc (req_Body req) = Inr in0" and "Prompt in0 \<noteq> []"
    and "GenerateImages_result svc (gen_calls w) (generation_call in0) = Inr imgs"
    and "i < length imgs"
    and "\<forall>j<i.
      PutObject_result svc
        (put_calls w @ map (loop_input svc cfg (now_calls w) 0 imgs) [0..<j])
        (loop_input svc cfg (now_calls w) 0 imgs j) = None"
    and "PutObject_result svc
        (put_calls w @ map (loop_input svc cfg (now_calls w) 0 imgs) [0..<i])
        (loop_input svc cfg (now_calls w) 0 imgs i) = Some e"
  shows "fst (handler svc cfg w req) =
      (\<lparr>StatusCode = 500, Headers = [(''Content-Type'', ''text/plain'')],
        Body = ''failed to upload image: '' @ e\<rparr>, None) \<and>
    put_calls (snd (handler svc cfg w req)) =
      put_calls w @
      map (\<lambda>j. put_input cfg (loop_key svc cfg (now_calls w) 0 j) (imgs ! j)) [0..<Suc i] \<and>
    store (snd (handler svc cfg w req)) =
      foldl (\<lambda>s inp. commit inp s) (store w)
        (map (\<lambda>j. put_input cfg (loop_key svc cfg (now_calls w) 0 j) (imgs ! j)) [0..<i]) \<and>
    (\<forall>j<i. store (snd (handler svc cfg w req))
              (bucketName cfg, loop_key svc cfg (now_calls w) 0 j) \<noteq> None)"
proof -
  have ok: "PutObject_result svc
        (put_calls w @ map (loop_input svc cfg (now_calls w) 0 imgs) [0..<j])
        (loop_input svc cfg (now_calls w) 0 imgs j) = None" if "j < i" for j
    using assms(5) that by blast
  note run = handler_upload_failure [OF assms(1-4) ok assms(6)]
  have inputs: "loop_input svc cfg (now_calls w) 0 imgs =
      (\<lambda>j. put_input cfg (loop_key svc cfg (now_calls w) 0 j) (imgs ! j))"
    by (rule ext) (simp add: loop_input_def)
  have resp: "fst (handler svc cfg w req) =
      (\<lparr>StatusCode = 500, Headers = [(''Content-Type'', ''text/plain'')],
        Body = ''failed to upload image: '' @ e\<rparr>, None)"
    using run by (simp add: serverError_def)
  have puts: "put_calls (snd (handler svc cfg w req)) =
      put_calls w @
      map (\<lambda>j. put_input cfg (loop_key svc cfg (now_calls w) 0 j) (imgs ! j)) [0..<Suc i]"
    using run unfolding inputs by (simp del: upt_Suc)
  have st: "store (snd (handler svc cfg w req)) =
      foldl (\<lambda>s inp. commit inp s) (store w)
        (map (\<lambda>j. put_input cfg (loop_key svc cfg (now_calls w) 0 j) (imgs ! j)) [0..<i])"
    using run unfolding inputs by simp
  have kept: "store (snd (handler svc cfg w req))
      (bucketName cfg, loop_key svc cfg (now_calls w) 0 j) \<noteq> None" if "j < i" for j
  proof -
    have "(bucketName cfg, loop_key svc cfg (now_calls w) 0 j) \<in>
        (\<lambda>x. (po_Bucket x, po_Key x)) `
          set (map (\<lambda>j. put_input cfg (loop_key svc cfg (now_calls w) 0 j) (imgs ! j)) [0..<i])"
      using that by (auto simp: put_input_def image_iff)
    then have "(bucketName cfg, loop_key svc cfg (now_calls w) 0 j) \<in>
        dom (store (snd (handler svc cfg w req)))"
      unfolding st dom_foldl_commit by blast
    then show ?thesis by blast
  qed
  from resp puts st kept show ?thesis by blast
qed

theorem upload_failure_aborts_witness:
  "fst (handler (demo_services (Inr [[1, 2, 3], [4, 5], [6]])
            (\<lambda>n. if n = 1 then Some ''AccessDenied'' else None))
          (demo_config []) demo_world \<lparr>req_Body = body_cat2\<rparr>) =
     (\<lparr>StatusCode = 500, Headers = [(''Content-Type'', ''text/plain'')],
       Body = ''failed to upload image: AccessDenied''\<rparr>, None) \<and>
   map po_Key (put_calls (snd (handler (demo_services (Inr [[1, 2, 3], [4, 5], [6]])
            (\<lambda>n. if n = 1 then Some ''AccessDenied'' else None))
          (demo_config []) demo_world \<lparr>req_Body = body_cat2\<rparr>))) =
     [''imagen_0_20250805T123456.png'', ''imagen_1_20250805T123456.png''] \<and>
   store (snd (handler (demo_services (Inr [[1, 2, 3], [4, 5], [6]])
            (\<lambda>n. if n = 1 then Some ''AccessDenied'' else None))
          (demo_config []) demo_world \<lparr>req_Body = body_cat2\<rparr>))
     (''bucket'', ''imagen_0_20250805T123456.png'') = Some ([1, 2, 3], ''image/png'') \<and>
   store (snd (handler (demo_services (Inr [[1, 2, 3], [4, 5], [6]])
            (\<lambda>n. if n = 1 then Some ''AccessDenied'' else None))
          (demo_config []) demo_world \<lparr>req_Body = body_cat2\<rparr>))
     (''bucket'', ''imagen_1_20250805T123456.png'') = None"
proof -
  note run = upload_failure_aborts [of
      "demo_services (Inr [[1, 2, 3], [4, 5], [6]]) (\<lambda>n. if n = 1 then Some ''AccessDenied'' else None)"
      "\<lparr>req_Body = body_cat2\<rparr>"
      "\<lparr>NumberOfImages = 2, AspectRatio = ''SQUARE'', PersonGeneration = [], Prompt = ''A cat''\<rparr>"
      demo_world "[[1, 2, 3], [4, 5], [6]]" 1 "demo_config []" "''AccessDenied''"]
  have two: "[0..<2] = [0, Suc 0]"
    by (simp add: upt_rec)
  show ?thesis
    using run
    by (simp add: demo_services_simps demo_Unmarshal_simps demo_world_simps demo_loop_key
        demo_keys demo_config_simps put_input_def commit_def two)
qed

text \<open>
  Claim C5, as amended. A payload whose \<^verbatim>\<open>numberOfImages\<close> is zero or a negative int32
  value is handled exactly as the same payload with \<^verbatim>\<open>numberOfImages\<close> 1: the same
  response, the same error value and the same resulting world. When the prompt is not
  empty, the one generation call carries the count 1 (with the prompt, the aspect ratio
  or its default, and the person policy), the count raises no error (the status is not
  400), and the run is the run of the handler after that call.
\<close>

theorem nonpositive_count_as_one:
  assumes "json_Unmarshal_result svc b = Inr in0" and "sint (NumberOfImages in0) \<le> 0"
    and "json_Unmarshal_result svc b1 = Inr (in0\<lparr>NumberOfImages := 1\<rparr>)"
  shows "handler svc cfg w \<lparr>req_Body = b\<rparr> = handler svc cfg w \<lparr>req_Body = b1\<rparr> \<and>
    (Prompt in0 \<noteq> [] \<longrightarrow>
       (let call = (''imagen-4.0-generate-preview-06-06'', Prompt in0,
                    \<lparr>gc_NumberOfImages = 1,
                     gc_AspectRatio = (if AspectRatio in0 = [] then ''SQUARE'' else AspectRatio in0),
                     gc_PersonGeneration = PersonGeneration in0\<rparr>)
        in gen_calls (snd (handler svc cfg w \<lparr>req_Body = b\<rparr>)) = gen_calls w @ [call] \<and>
           StatusCode (fst (fst (handler svc cfg w \<lparr>req_Body = b\<rparr>))) \<noteq> 400 \<and>
           handler svc cfg w \<lparr>req_Body = b\<rparr> =
             (case GenerateImages_result svc (gen_calls w) call of
                Inl err \<Rightarrow>
                  (serverError (''image generation failed: '' @ err),
                   w\<lparr>gen_calls := gen_calls w @ [call],
                     log_lines := log_lines w @ [''GenAI error: '' @ err]\<rparr>)
              | Inr imgs \<Rightarrow>
                  (case upload_loop svc cfg (w\<lparr>gen_calls := gen_calls w @ [call]\<rparr>) 0 imgs None of
                     (Inl resp, w2) \<Rightarrow> (resp, w2)
                   | (Inr urls, w2) \<Rightarrow>
                       ((\<lparr>StatusCode = 200,
                          Headers = [(''Content-Type'', ''application/json'')],
                          Body = json_Marshal svc \<lparr>ImageURLs = urls\<rparr>\<rparr>, None), w2)))))"
proof -
  let ?call = "(''imagen-4.0-generate-preview-06-06'', Prompt in0,
      \<lparr>gc_NumberOfImages = 1,
       gc_AspectRatio = (if AspectRatio in0 = [] then ''SQUARE'' else AspectRatio in0),
       gc_PersonGeneration = PersonGeneration in0\<rparr>)"
  let ?w1 = "w\<lparr>gen_calls := gen_calls w @ [?call]\<rparr>"
  have call: "generation_call in0 = ?call"
    using assms(2) by (simp add: generation_call_def)
  have call1: "generation_call (in0\<lparr>NumberOfImages := 1\<rparr>) = ?call"
    by (simp add: generation_call_def)
  have parse: "json_Unmarshal_result svc (req_Body \<lparr>req_Body = b\<rparr>) = Inr in0"
    using assms(1) by simp
  have parse1: "json_Unmarshal_result svc (req_Body \<lparr>req_Body = b1\<rparr>) =
      Inr (in0\<lparr>NumberOfImages := 1\<rparr>)"
    using assms(3) by simp
  have same: "handler svc cfg w \<lparr>req_Body = b\<rparr> = handler svc cfg w \<lparr>req_Body = b1\<rparr>"
  proof (cases "Prompt in0 = []")
    case True
    with assms show ?thesis by (simp add: handler_def)
  next
    case False
    then have prompt1: "Prompt (in0\<lparr>NumberOfImages := 1\<rparr>) \<noteq> []"
      by simp
    show ?thesis
      unfolding handler_valid [OF parse False] handler_valid [OF parse1 prompt1] call call1
      by (rule refl)
  qed
  have rest: "gen_calls (snd (handler svc cfg w \<lparr>req_Body = b\<rparr>)) = gen_calls w @ [?call] \<and>
      StatusCode (fst (fst (handler svc cfg w \<lparr>req_Body = b\<rparr>))) \<noteq> 400 \<and>
      handler svc cfg w \<lparr>req_Body = b\<rparr> =
        (case GenerateImages_result svc (gen_calls w) ?call of
           Inl err \<Rightarrow>
             (serverError (''image generation failed: '' @ err),
              w\<lparr>gen_calls := gen_calls w @ [?call],
                log_lines := log_lines w @ [''GenAI error: '' @ err]\<rparr>)
         | Inr imgs \<Rightarrow>
             (case upload_loop svc cfg ?w1 0 imgs None of
                (Inl resp, w2) \<Rightarrow> (resp, w2)
              | (Inr urls, w2) \<Rightarrow>
                  ((\<lparr>StatusCode = 200,
                     Headers = [(''Content-Type'', ''application/json'')],
                     Body = json_Marshal svc \<lparr>ImageURLs = urls\<rparr>\<rparr>, None), w2)))"
    if prompt: "Prompt in0 \<noteq> []"
  proof -
    note run = handler_valid [OF parse prompt, of cfg w, unfolded call]
    show ?thesis
    proof (cases "GenerateImages_result svc (gen_calls w) ?call")
      case (Inl err)
      with run show ?thesis by (simp add: serverError_def)
    next
      case (Inr imgs)
      obtain res w2 where loop: "upload_loop svc cfg ?w1 0 imgs None = (res, w2)"
        by (cases "upload_loop svc cfg ?w1 0 imgs None")
      have gen2: "gen_calls w2 = gen_calls w @ [?call]"
        using upload_loop_gen_calls [of svc cfg ?w1 0 imgs None] loop by simp
      show ?thesis
      proof (cases res)
        case (Inl r)
        with loop have "StatusCode (fst r) = 500"
          using upload_loop_status by blast
        with run Inr loop Inl gen2 show ?thesis by simp
      next
        case res: (Inr urls)
        with run Inr loop gen2 show ?thesis by simp
      qed
    qed
  qed
  from same rest show ?thesis
    unfolding Let_def by blast
qed

theorem nonpositive_count_as_one_witness:
  "sint (- 3 :: 32 word) \<le> 0 \<and>
   handler (demo_services (Inr [[1, 2, 3]]) (\<lambda>n. None)) (demo_config []) demo_world
     \<lparr>req_Body = body_minus3\<rparr> =
   handler (demo_services (Inr [[1, 2, 3]]) (\<lambda>n. None)) (demo_config []) demo_world
     \<lparr>req_Body = body_one\<rparr> \<and>
   gen_calls (snd (handler (demo_services (Inr [[1, 2, 3]]) (\<lambda>n. None)) (demo_config []) demo_world
     \<lparr>req_Body = body_minus3\<rparr>)) =
     [(''imagen-4.0-generate-preview-06-06'', ''A cat'',
       \<lparr>gc_NumberOfImages = 1, gc_AspectRatio = ''SQUARE'', gc_PersonGeneration = []\<rparr>)] \<and>
   StatusCode (fst (fst (handler (demo_services (Inr [[1, 2, 3]]) (\<lambda>n. None)) (demo_config [])
     demo_world \<lparr>req_Body = body_minus3\<rparr>))) \<noteq> 400"
proof -
  note run = nonpositive_count_as_one [of "demo_services (Inr [[1, 2, 3]]) (\<lambda>n. None)" body_minus3
      "\<lparr>NumberOfImages = - 3, AspectRatio = [], PersonGeneration = [], Prompt = ''A cat''\<rparr>"
      body_one "demo_config []" demo_world]
  have parse: "json_Unmarshal_result (demo_services (Inr [[1, 2, 3]]) (\<lambda>n. None)) body_minus3 =
      Inr \<lparr>NumberOfImages = - 3, AspectRatio = [], PersonGeneration = [], Prompt = ''A cat''\<rparr>"
    "json_Unmarshal_result (demo_services (Inr [[1, 2, 3]]) (\<lambda>n. None)) body_one =
      Inr (\<lparr>NumberOfImages = - 3, AspectRatio = [], PersonGeneration = [], Prompt = ''A cat''\<rparr>
        \<lparr>NumberOfImages := 1\<rparr>)"
    by (simp_all add: demo_services_simps demo_Unmarshal_simps)
  have neg: "sint (- 3 :: 32 word) \<le> 0"
    by simp
  have prompt: "Prompt \<lparr>NumberOfImages = - 3 :: 32 word, AspectRatio = [], PersonGeneration = [],
      Prompt = ''A cat''\<rparr> \<noteq> []"
    by simp
  have count: "sint (NumberOfImages \<lparr>NumberOfImages = - 3 :: 32 word, AspectRatio = [],
      PersonGeneration = [], Prompt = ''A cat''\<rparr>) \<le> 0"
    by simp
  note all = run [OF parse(1) count parse(2), unfolded Let_def]
  note same = all [THEN conjunct1]
  note rest = all [THEN conjunct2, rule_format, OF prompt]
  from neg same rest [THEN conjunct1] rest [THEN conjunct2, THEN conjunct1] show ?thesis
    by (simp add: demo_world_simps)
qed

text \<open>
  The claim as stated fails for a negative number below the int32 range: it does not
  decode into the int32 field, so the handler answers 400 and calls nothing, where the same
  body with the count 1 is answered with 200 after one generation call.
\<close>

theorem count_below_int32_is_rejected:
  "fst (handler (demo_services (Inr [[1, 2, 3]]) (\<lambda>n. None)) (demo_config []) demo_world
          \<lparr>req_Body = body_below_int32\<rparr>) =
     (\<lparr>StatusCode = 400, Headers = [(''Content-Type'', ''text/plain'')],
       Body = ''invalid JSON: json: cannot unmarshal number -2147483649 into Go struct field requestPayload.numberOfImages of type int32''\<rparr>,
      None) \<and>
   gen_calls (snd (handler (demo_services (Inr [[1, 2, 3]]) (\<lambda>n. None)) (demo_config [])
          demo_world \<lparr>req_Body = body_below_int32\<rparr>)) = [] \<and>
   fst (handler (demo_services (Inr [[1, 2, 3]]) (\<lambda>n. None)) (demo_config []) demo_world
          \<lparr>req_Body = body_one\<rparr>) =
     (\<lparr>StatusCode = 200, Headers = [(''Content-Type'', ''application/json'')],
       Body = ''{\"imageUrls\":[\"https://bucket.s3.us-east-1.amazonaws.com/imagen_0_20250805T123456.png\"]}''\<rparr>,
      None) \<and>
   gen_calls (snd (handler (demo_services (Inr [[1, 2, 3]]) (\<lambda>n. None)) (demo_config [])
          demo_world \<lparr>req_Body = body_one\<rparr>)) =
     [(''imagen-4.0-generate-preview-06-06'', ''A cat'',
       \<lparr>gc_NumberOfImages = 1, gc_AspectRatio = ''SQUARE'', gc_PersonGeneration = []\<rparr>)]"
proof -
  have below: "handler (demo_services (Inr [[1, 2, 3]]) (\<lambda>n. None)) (demo_config []) demo_world
      \<lparr>req_Body = body_below_int32\<rparr> =
    (clientError 400 (''invalid JSON: '' @ ''json: cannot unmarshal number -2147483649 into Go struct field requestPayload.numberOfImages of type int32''),
     demo_world)"
    by (simp add: handler_def demo_services_simps demo_Unmarshal_below_int32)
  note one = handler_success [of "demo_services (Inr [[1, 2, 3]]) (\<lambda>n. None)"
      "\<lparr>req_Body = body_one\<rparr>"
      "\<lparr>NumberOfImages = 1, AspectRatio = [], PersonGeneration = [], Prompt = ''A cat''\<rparr>"
      demo_world "[[1, 2, 3]]" "demo_config []"]
  show ?thesis
    using one unfolding below
    by (simp add: clientError_def demo_services_simps demo_Unmarshal_simps demo_world_simps
        demo_loop_key demo_keys demo_config_simps json_Marshal_def demo_json_string_def
        object_url_def generation_call_def)
qed

text \<open>
  Claim C6, as amended. Every upload of a request carries the image at its position j in
  the result list, under the key \<^verbatim>\<open>path.Join(folderPrefix, name)\<close> where the name is
  \<^verbatim>\<open>imagen_\<close>, the decimal index j, an underscore, the timestamp and \<^verbatim>\<open>.png\<close>. The key is
  the name alone when the folder prefix is empty, and the prefix, a slash and the name
  when the prefix is made of ordinary elements separated by single slashes. For the
  calendar fields of a point in time (a year of at most four digits), the timestamp is
  \<^verbatim>\<open>YYYYMMDDThhmmss\<close>.
\<close>

theorem storage_key_of_upload:
  assumes "json_Unmarshal_result svc (req_Body req) = Inr in0" and "Prompt in0 \<noteq> []"
    and "GenerateImages_result svc (gen_calls w) (generation_call in0) = Inr imgs"
    and "j < length (put_calls (snd (handler svc cfg w req))) - length (put_calls w)"
  shows "let inp = put_calls (snd (handler svc cfg w req)) ! (length (put_calls w) + j);
             t = Now_result svc (now_calls w + j);
             name = ''imagen_'' @ itoa j @ ''_'' @ time_Format t @ ''.png''
         in j < length imgs \<and> po_Body inp = imgs ! j \<and> po_Bucket inp = bucketName cfg \<and>
            po_Key inp = path_Join [folderPrefix cfg, name] \<and>
            (folderPrefix cfg = [] \<longrightarrow> po_Key inp = name) \<and>
            (plain_prefix (folderPrefix cfg) \<longrightarrow> po_Key inp = folderPrefix cfg @ ''/'' @ name) \<and>
            (calendar_time t \<longrightarrow>
               time_Format t =
                 four_digits (Year t) @ two_digits (Month t) @ two_digits (Day t) @ ''T'' @
                 two_digits (Hour t) @ two_digits (Minute t) @ two_digits (Second t))"
proof -
  obtain m where m: "m \<le> length imgs"
    and puts: "put_calls (snd (handler svc cfg w req)) =
      put_calls w @ map (loop_input svc cfg (now_calls w) 0 imgs) [0..<m]"
    using handler_put_calls [OF assms(1-3)] by blast
  from assms(4) have jm: "j < m" unfolding puts by simp
  have inp: "put_calls (snd (handler svc cfg w req)) ! (length (put_calls w) + j) =
      loop_input svc cfg (now_calls w) 0 imgs j"
    unfolding puts using jm by (simp add: nth_append)
  let ?t = "Now_result svc (now_calls w + j)"
  have name: "object_name j ?t = ''imagen_'' @ itoa j @ ''_'' @ time_Format ?t @ ''.png''"
    by (simp add: object_name_def)
  have key: "po_Key (loop_input svc cfg (now_calls w) 0 imgs j) = object_key cfg j ?t"
    by (simp add: po_Key_loop_input loop_key_def)
  have body: "po_Body (loop_input svc cfg (now_calls w) 0 imgs j) = imgs ! j"
    "po_Bucket (loop_input svc cfg (now_calls w) 0 imgs j) = bucketName cfg"
    by (simp_all add: loop_input_def put_input_def)
  have join: "object_key cfg j ?t = path_Join [folderPrefix cfg, object_name j ?t]"
    by (simp add: object_key_def)
  have empty: "folderPrefix cfg = [] \<Longrightarrow> object_key cfg j ?t = object_name j ?t"
    by (rule object_key_empty_prefix)
  have plain: "plain_prefix (folderPrefix cfg) \<Longrightarrow>
      object_key cfg j ?t = folderPrefix cfg @ ''/'' @ object_name j ?t"
    by (rule object_key_plain_prefix)
  have "j < length imgs" using jm m by simp
  then show ?thesis
    unfolding Let_def inp key body name [symmetric]
    using join empty plain time_Format_calendar [of ?t] by blast
qed

theorem storage_key_of_upload_witness:
  "plain_prefix ''generated-images'' \<and> calendar_time demo_time \<and>
   po_Key (put_calls (snd (handler (demo_services (Inr [[1, 2, 3], [4, 5]]) (\<lambda>n. None))
          (demo_config ''generated-images'') demo_world \<lparr>req_Body = body_cat2\<rparr>)) ! 1) =
     ''generated-images/imagen_1_20250805T123456.png'' \<and>
   time_Format demo_time = ''20250805T123456''"
proof -
  let ?svc = "demo_services (Inr [[1, 2, 3], [4, 5]]) (\<lambda>n. None)"
  let ?in0 = "\<lparr>NumberOfImages = 2, AspectRatio = ''SQUARE'', PersonGeneration = [], Prompt = ''A cat''\<rparr>"
  have parse: "json_Unmarshal_result ?svc (req_Body \<lparr>req_Body = body_cat2\<rparr>) = Inr ?in0"
    by (simp add: demo_services_simps demo_Unmarshal_simps)
  have prompt: "Prompt ?in0 \<noteq> []"
    by simp
  have gen: "GenerateImages_result ?svc (gen_calls demo_world) (generation_call ?in0) =
      Inr [[1, 2, 3], [4, 5]]"
    by (simp add: demo_services_simps)
  have len: "length (put_calls (snd (handler ?svc (demo_config ''generated-images'') demo_world
      \<lparr>req_Body = body_cat2\<rparr>))) = 2"
    using handler_success [of ?svc "\<lparr>req_Body = body_cat2\<rparr>" ?in0 demo_world
        "[[1, 2, 3], [4, 5]]" "demo_config ''generated-images''", OF parse prompt gen]
    by (simp add: demo_services_simps demo_world_simps)
  have j: "1 < length (put_calls (snd (handler ?svc (demo_config ''generated-images'') demo_world
      \<lparr>req_Body = body_cat2\<rparr>))) - length (put_calls demo_world)"
    unfolding len by (simp add: demo_world_simps)
  have joined: "path_Join [''generated-images'', ''imagen_1_20250805T123456.png''] =
      ''generated-images/imagen_1_20250805T123456.png''"
    using demo_keys(5)
    by (simp add: object_key_def demo_config_simps object_name_def itoa_small demo_time_Format)
  note key = storage_key_of_upload [OF parse prompt gen j]
  show ?thesis
    using key demo_plain_prefix demo_calendar_time
    by (simp add: Let_def demo_config_simps demo_services_simps demo_world_simps
        demo_time_Format itoa_small joined)
qed

text \<open>
  The claim as stated fails for a folder prefix that \<^verbatim>\<open>path.Join\<close> cleans: with the prefix
  \<^verbatim>\<open>out/\<close> the key has one slash after \<^verbatim>\<open>out\<close>, not the two of prefix, slash, name.
\<close>

theorem trailing_slash_prefix_is_cleaned:
  "folderPrefix (demo_config ''out/'') = ''out/'' \<and>
   map po_Key (put_calls (snd (handler (demo_services (Inr [[1, 2, 3]]) (\<lambda>n. None))
          (demo_config ''out/'') demo_world \<lparr>req_Body = body_one\<rparr>))) =
     [''out/imagen_0_20250805T123456.png''] \<and>
   ''out/imagen_0_20250805T123456.png'' \<noteq>
     folderPrefix (demo_config ''out/'') @ ''/'' @ ''imagen_0_20250805T123456.png''"
proof -
  note run = handler_success [of "demo_services (Inr [[1, 2, 3]]) (\<lambda>n. None)"
      "\<lparr>req_Body = body_one\<rparr>"
      "\<lparr>NumberOfImages = 1, AspectRatio = [], PersonGeneration = [], Prompt = ''A cat''\<rparr>"
      demo_world "[[1, 2, 3]]" "demo_config ''out/''"]
  show ?thesis
    using run
    by (simp add: demo_services_simps demo_Unmarshal_simps demo_world_simps demo_loop_key
        demo_key_trailing_slash demo_config_simps loop_input_def put_input_def)
qed

text \<open>
  Claim C7. When every upload succeeds, the URLs of the response are, in the order of the
  uploads of this request, \<^verbatim>\<open>https://\<close>, the bucket, \<^verbatim>\<open>.s3.\<close>, the region,
  \<^verbatim>\<open>.amazonaws.com/\<close> and the key of the upload: a function of bucket, region and key.
  There is one upload for each image. For the bucket \<^verbatim>\<open>bucket\<close>, the region \<^verbatim>\<open>us-east-1\<close>
  and no folder prefix, the URL of index 0 is
  \<^verbatim>\<open>https://bucket.s3.us-east-1.amazonaws.com/imagen_0_\<close>, the timestamp, \<^verbatim>\<open>.png\<close>.
\<close>

theorem public_url_of_upload:
  assumes "json_Unmarshal_result svc (req_Body req) = Inr in0" and "Prompt in0 \<noteq> []"
    and "GenerateImages_result svc (gen_calls w) (generation_call in0) = Inr imgs"
    and "imgs \<noteq> []"
    and "\<forall>j<length imgs.
      PutObject_result svc
        (put_calls w @ map (loop_input svc cfg (now_calls w) 0 imgs) [0..<j])
        (loop_input svc cfg (now_calls w) 0 imgs j) = None"
  shows "fst (handler svc cfg w req) =
      (\<lparr>StatusCode = 200, Headers = [(''Content-Type'', ''application/json'')],
        Body = json_Marshal svc
          \<lparr>ImageURLs = Some
             (map (\<lambda>inp. ''https://'' @ bucketName cfg @ ''.s3.'' @ region cfg @
                          ''.amazonaws.com/'' @ po_Key inp)
                (drop (length (put_calls w)) (put_calls (snd (handler svc cfg w req)))))\<rparr>\<rparr>,
       None) \<and>
    length (drop (length (put_calls w)) (put_calls (snd (handler svc cfg w req)))) = length imgs \<and>
    (bucketName cfg = ''bucket'' \<and> region cfg = ''us-east-1'' \<and> folderPrefix cfg = [] \<longrightarrow>
       ''https://'' @ bucketName cfg @ ''.s3.'' @ region cfg @ ''.amazonaws.com/'' @
         po_Key (put_calls (snd (handler svc cfg w req)) ! length (put_calls w)) =
       ''https://bucket.s3.us-east-1.amazonaws.com/imagen_0_'' @
         time_Format (Now_result svc (now_calls w)) @ ''.png'')"
proof -
  have ok: "PutObject_result svc
        (put_calls w @ map (loop_input svc cfg (now_calls w) 0 imgs) [0..<j])
        (loop_input svc cfg (now_calls w) 0 imgs j) = None" if "j < length imgs" for j
    using assms(5) that by blast
  note run = handler_success [OF assms(1-3) ok]
  have puts: "drop (length (put_calls w)) (put_calls (snd (handler svc cfg w req))) =
      map (loop_input svc cfg (now_calls w) 0 imgs) [0..<length imgs]"
    using run by simp
  have resp: "fst (handler svc cfg w req) =
      (\<lparr>StatusCode = 200, Headers = [(''Content-Type'', ''application/json'')],
        Body = json_Marshal svc
          \<lparr>ImageURLs = Some
             (map (\<lambda>inp. ''https://'' @ bucketName cfg @ ''.s3.'' @ region cfg @
                          ''.amazonaws.com/'' @ po_Key inp)
                (drop (length (put_calls w)) (put_calls (snd (handler svc cfg w req)))))\<rparr>\<rparr>,
       None)"
    unfolding puts using run assms(4)
    by (simp add: object_url_def po_Key_loop_input comp_def)
  have len: "length (drop (length (put_calls w)) (put_calls (snd (handler svc cfg w req)))) =
      length imgs"
    unfolding puts by simp
  have first: "put_calls (snd (handler svc cfg w req)) ! length (put_calls w) =
      loop_input svc cfg (now_calls w) 0 imgs 0"
    using run assms(4) by (simp add: nth_append upt_conv_Cons)
  have url: "''https://'' @ bucketName cfg @ ''.s3.'' @ region cfg @ ''.amazonaws.com/'' @
         po_Key (put_calls (snd (handler svc cfg w req)) ! length (put_calls w)) =
       ''https://bucket.s3.us-east-1.amazonaws.com/imagen_0_'' @
         time_Format (Now_result svc (now_calls w)) @ ''.png''"
    if "bucketName cfg = ''bucket''" "region cfg = ''us-east-1''" "folderPrefix cfg = []"
    unfolding first po_Key_loop_input loop_key_def
    using that object_key_empty_prefix [OF that(3)]
    by (simp add: object_name_def itoa_small)
  from resp len url show ?thesis by blast
qed

theorem public_url_of_upload_witness:
  "fst (handler (demo_services (Inr [[1, 2, 3], [4, 5]]) (\<lambda>n. None)) (demo_config [])
          demo_world \<lparr>req_Body = body_cat2\<rparr>) =
     (\<lparr>StatusCode = 200, Headers = [(''Content-Type'', ''application/json'')],
       Body = ''{\"imageUrls\":[\"https://bucket.s3.us-east-1.amazonaws.com/imagen_0_20250805T123456.png\",\"https://bucket.s3.us-east-1.amazonaws.com/imagen_1_20250805T123456.png\"]}''\<rparr>,
      None)"
proof -
  let ?svc = "demo_services (Inr [[1, 2, 3], [4, 5]]) (\<lambda>n. None)"
  let ?in0 = "\<lparr>NumberOfImages = 2, AspectRatio = ''SQUARE'', PersonGeneration = [], Prompt = ''A cat''\<rparr>"
  have two: "[0..<2] = [0, Suc 0]"
    by (simp add: upt_rec)
  have parse: "json_Unmarshal_result ?svc (req_Body \<lparr>req_Body = body_cat2\<rparr>) = Inr ?in0"
    by (simp add: demo_services_simps demo_Unmarshal_simps)
  have prompt: "Prompt ?in0 \<noteq> []"
    by simp
  have gen: "GenerateImages_result ?svc (gen_calls demo_world) (generation_call ?in0) =
      Inr [[1, 2, 3], [4, 5]]"
    by (simp add: demo_services_simps)
  have ok: "\<forall>j<length [[1, 2, 3], [4, 5 :: 8 word]].
      PutObject_result ?svc
        (put_calls demo_world @ map (loop_input ?svc (demo_config []) (now_calls demo_world) 0
           [[1, 2, 3], [4, 5]]) [0..<j])
        (loop_input ?svc (demo_config []) (now_calls demo_world) 0 [[1, 2, 3], [4, 5]] j) = None"
    by (simp add: demo_services_simps)
  have puts: "put_calls (snd (handler ?svc (demo_config []) demo_world \<lparr>req_Body = body_cat2\<rparr>)) =
      map (loop_input ?svc (demo_config []) 0 0 [[1, 2, 3], [4, 5]]) [0, Suc 0]"
    using handler_success [of ?svc "\<lparr>req_Body = body_cat2\<rparr>" ?in0 demo_world
        "[[1, 2, 3], [4, 5]]" "demo_config []", OF parse prompt gen]
    by (simp add: demo_services_simps demo_world_simps two)
  note url = public_url_of_upload [OF parse prompt gen _ ok]
  show ?thesis
    using url unfolding puts
    by (simp add: demo_services_simps demo_world_simps demo_config_simps po_Key_loop_input
        demo_loop_key demo_keys json_Marshal_def demo_json_string_def)
qed

text \<open>
  Claim C8. When the body does not decode into the request payload, the handler answers
  with status 400 and a plain-text body (the decoder's message after "invalid JSON: "),
  and the world is unchanged: no generation call and no upload was made.
\<close>

theorem malformed_body_is_400:
  "json_Unmarshal_result svc (req_Body req) = Inl err \<Longrightarrow>
   handler svc cfg w req =
     ((\<lparr>StatusCode = 400, Headers = [(''Content-Type'', ''text/plain'')],
        Body = ''invalid JSON: '' @ err\<rparr>, None), w)"
  by (simp add: handler_def clientError_def)

theorem malformed_body_is_400_witness:
  "handler (demo_services (Inr []) (\<lambda>n. None)) (demo_config []) demo_world
     \<lparr>req_Body = body_not_json\<rparr> =
   ((\<lparr>StatusCode = 400, Headers = [(''Content-Type'', ''text/plain'')],
      Body = ''invalid JSON: invalid character 'o' in literal null (expecting 'u')''\<rparr>, None),
    demo_world)"
  using malformed_body_is_400 [of "demo_services (Inr []) (\<lambda>n. None)" "\<lparr>req_Body = body_not_json\<rparr>"
      "''invalid character 'o' in literal null (expecting 'u')''" "demo_config []" demo_world]
  by (simp add: demo_services_simps demo_Unmarshal_simps)

text \<open>
  Claim C9. In each of the five outcomes, the handler returns the nil error and a response
  that tells the outcome by its status and body alone: a body that does not decode gives
  400 and "invalid JSON: " with the decoder's message; an empty prompt gives 400 and
  "prompt is required"; a failed generation call gives 500 and "image generation failed: "
  with the upstream text; a first failed upload gives 500 and "failed to upload image: "
  with the storage error; success gives 200 and the JSON list of URLs. The failures have a
  plain-text content type, the success a JSON one. (The outcomes are those in which the
  library calls return, with a result or an error.)
\<close>

theorem failures_only_in_response:
  "(json_Unmarshal_result svc (req_Body req) = Inl e1 \<longrightarrow>
      fst (handler svc cfg w req) =
        (\<lparr>StatusCode = 400, Headers = [(''Content-Type'', ''text/plain'')],
          Body = ''invalid JSON: '' @ e1\<rparr>, None)) \<and>
   (json_Unmarshal_result svc (req_Body req) = Inr in0 \<and> Prompt in0 = [] \<longrightarrow>
      fst (handler svc cfg w req) =
        (\<lparr>StatusCode = 400, Headers = [(''Content-Type'', ''text/plain'')],
          Body = ''prompt is required''\<rparr>, None)) \<and>
   (json_Unmarshal_result svc (req_Body req) = Inr in0 \<and> Prompt in0 \<noteq> [] \<and>
    GenerateImages_result svc (gen_calls w) (generation_call in0) = Inl e3 \<longrightarrow>
      fst (handler svc cfg w req) =
        (\<lparr>StatusCode = 500, Headers = [(''Content-Type'', ''text/plain'')],
          Body = ''image generation failed: '' @ e3\<rparr>, None)) \<and>
   (json_Unmarshal_result svc (req_Body req) = Inr in0 \<and> Prompt in0 \<noteq> [] \<and>
    GenerateImages_result svc (gen_calls w) (generation_call in0) = Inr imgs \<and>
    i < length imgs \<and>
    (\<forall>j<i. PutObject_result svc
        (put_calls w @ map (loop_input svc cfg (now_calls w) 0 imgs) [0..<j])
        (loop_input svc cfg (now_calls w) 0 imgs j) = None) \<and>
    PutObject_result svc
        (put_calls w @ map (loop_input svc cfg (now_calls w) 0 imgs) [0..<i])
        (loop_input svc cfg (now_calls w) 0 imgs i) = Some e4 \<longrightarrow>
      fst (handler svc cfg w req) =
        (\<lparr>StatusCode = 500, Headers = [(''Content-Type'', ''text/plain'')],
          Body = ''failed to upload image: '' @ e4\<rparr>, None)) \<and>
   (json_Unmarshal_result svc (req_Body req) = Inr in0 \<and> Prompt in0 \<noteq> [] \<and>
    GenerateImages_result svc (gen_calls w) (generation_call in0) = Inr imgs \<and>
    (\<forall>j<length imgs. PutObject_result svc
        (put_calls w @ map (loop_input svc cfg (now_calls w) 0 imgs) [0..<j])
        (loop_input svc cfg (now_calls w) 0 imgs j) = None) \<longrightarrow>
      fst (handler svc cfg w req) =
        (\<lparr>StatusCode = 200, Headers = [(''Content-Type'', ''application/json'')],
          Body = json_Marshal svc
            \<lparr>ImageURLs = (if imgs = [] then None
               else Some (map (\<lambda>j. object_url cfg (loop_key svc cfg (now_calls w) 0 j))
                            [0..<length imgs]))\<rparr>\<rparr>, None))"
proof (intro conjI impI)
  assume "json_Unmarshal_result svc (req_Body req) = Inl e1"
  then show "fst (handler svc cfg w req) =
      (\<lparr>StatusCode = 400, Headers = [(''Content-Type'', ''text/plain'')],
        Body = ''invalid JSON: '' @ e1\<rparr>, None)"
    by (simp add: handler_def clientError_def)
next
  assume "json_Unmarshal_result svc (req_Body req) = Inr in0 \<and> Prompt in0 = []"
  then show "fst (handler svc cfg w req) =
      (\<lparr>StatusCode = 400, Headers = [(''Content-Type'', ''text/plain'')],
        Body = ''prompt is required''\<rparr>, None)"
    by (simp add: handler_def clientError_def)
next
  assume "json_Unmarshal_result svc (req_Body req) = Inr in0 \<and> Prompt in0 \<noteq> [] \<and>
    GenerateImages_result svc (gen_calls w) (generation_call in0) = Inl e3"
  then show "fst (handler svc cfg w req) =
      (\<lparr>StatusCode = 500, Headers = [(''Content-Type'', ''text/plain'')],
        Body = ''image generation failed: '' @ e3\<rparr>, None)"
    by (simp add: handler_valid serverError_def)
next
  assume a: "json_Unmarshal_result svc (req_Body req) = Inr in0 \<and> Prompt in0 \<noteq> [] \<and>
    GenerateImages_result svc (gen_calls w) (generation_call in0) = Inr imgs \<and>
    i < length imgs \<and>
    (\<forall>j<i. PutObject_result svc
        (put_calls w @ map (loop_input svc cfg (now_calls w) 0 imgs) [0..<j])
        (loop_input svc cfg (now_calls w) 0 imgs j) = None) \<and>
    PutObject_result svc
        (put_calls w @ map (loop_input svc cfg (now_calls w) 0 imgs) [0..<i])
        (loop_input svc cfg (now_calls w) 0 imgs i) = Some e4"
  then have parse: "json_Unmarshal_result svc (req_Body req) = Inr in0"
    and prompt: "Prompt in0 \<noteq> []"
    and gen: "GenerateImages_result svc (gen_calls w) (generation_call in0) = Inr imgs"
    and i: "i < length imgs"
    and fail: "PutObject_result svc
        (put_calls w @ map (loop_input svc cfg (now_calls w) 0 imgs) [0..<i])
        (loop_input svc cfg (now_calls w) 0 imgs i) = Some e4"
    by blast+
  have ok: "PutObject_result svc
        (put_calls w @ map (loop_input svc cfg (now_calls w) 0 imgs) [0..<j])
        (loop_input svc cfg (now_calls w) 0 imgs j) = None" if "j < i" for j
    using a that by blast
  note run = handler_upload_failure [OF parse prompt gen i ok fail]
  show "fst (handler svc cfg w req) =
      (\<lparr>StatusCode = 500, Headers = [(''Content-Type'', ''text/plain'')],
        Body = ''failed to upload image: '' @ e4\<rparr>, None)"
    using run by (simp add: serverError_def)
next
  assume a: "json_Unmarshal_result svc (req_Body req) = Inr in0 \<and> Prompt in0 \<noteq> [] \<and>
    GenerateImages_result svc (gen_calls w) (generation_call in0) = Inr imgs \<and>
    (\<forall>j<length imgs. PutObject_result svc
        (put_calls w @ map (loop_input svc cfg (now_calls w) 0 imgs) [0..<j])
        (loop_input svc cfg (now_calls w) 0 imgs j) = None)"
  then have parse: "json_Unmarshal_result svc (req_Body req) = Inr in0"
    and prompt: "Prompt in0 \<noteq> []"
    and gen: "GenerateImages_result svc (gen_calls w) (generation_call in0) = Inr imgs"
    by blast+
  have ok: "PutObject_result svc
        (put_calls w @ map (loop_input svc cfg (now_calls w) 0 imgs) [0..<j])
        (loop_input svc cfg (now_calls w) 0 imgs j) = None" if "j < length imgs" for j
    using a that by blast
  note run = handler_success [OF parse prompt gen ok]
  show "fst (handler svc cfg w req) =
      (\<lparr>StatusCode = 200, Headers = [(''Content-Type'', ''application/json'')],
        Body = json_Marshal svc
          \<lparr>ImageURLs = (if imgs = [] then None
             else Some (map (\<lambda>j. object_url cfg (loop_key svc cfg (now_calls w) 0 j))
                          [0..<length imgs]))\<rparr>\<rparr>, None)"
    using run by simp
qed

theorem failures_only_in_response_witness:
  "fst (handler (demo_services (Inr [[1, 2, 3]]) (\<lambda>n. None)) (demo_config []) demo_world
          \<lparr>req_Body = body_not_json\<rparr>) =
     (\<lparr>StatusCode = 400, Headers = [(''Content-Type'', ''text/plain'')],
       Body = ''invalid JSON: invalid character 'o' in literal null (expecting 'u')''\<rparr>, None) \<and>
   fst (handler (demo_services (Inr [[1, 2, 3]]) (\<lambda>n. None)) (demo_config []) demo_world
          \<lparr>req_Body = body_empty_prompt\<rparr>) =
     (\<lparr>StatusCode = 400, Headers = [(''Content-Type'', ''text/plain'')],
       Body = ''prompt is required''\<rparr>, None) \<and>
   fst (handler (demo_services (Inl ''quota exceeded'') (\<lambda>n. None)) (demo_config []) demo_world
          \<lparr>req_Body = body_one\<rparr>) =
     (\<lparr>StatusCode = 500, Headers = [(''Content-Type'', ''text/plain'')],
       Body = ''image generation failed: quota exceeded''\<rparr>, None) \<and>
   fst (handler (demo_services (Inr [[1, 2, 3]]) (\<lambda>n. Some ''AccessDenied'')) (demo_config [])
          demo_world \<lparr>req_Body = body_one\<rparr>) =
     (\<lparr>StatusCode = 500, Headers = [(''Content-Type'', ''text/plain'')],
       Body = ''failed to upload image: AccessDenied''\<rparr>, None) \<and>
   fst (handler (demo_services (Inr [[1, 2, 3]]) (\<lambda>n. None)) (demo_config []) demo_world
          \<lparr>req_Body = body_one\<rparr>) =
     (\<lparr>StatusCode = 200, Headers = [(''Content-Type'', ''application/json'')],
       Body = ''{\"imageUrls\":[\"https://bucket.s3.us-east-1.amazonaws.com/imagen_0_20250805T123456.png\"]}''\<rparr>,
      None)"
proof -
  let ?one = "\<lparr>NumberOfImages = 1 :: 32 word, AspectRatio = [], PersonGeneration = [],
      Prompt = ''A cat''\<rparr>"
  let ?empty = "\<lparr>NumberOfImages = 0 :: 32 word, AspectRatio = [], PersonGeneration = [],
      Prompt = []\<rparr>"
  let ?msg = "''invalid character 'o' in literal null (expecting 'u')''"
  note malformed = failures_only_in_response [where svc = "demo_services (Inr [[1, 2, 3]]) (\<lambda>n. None)"
      and req = "\<lparr>req_Body = body_not_json\<rparr>" and cfg = "demo_config []" and w = demo_world
      and ?e1.0 = ?msg and ?in0.0 = ?one and ?e3.0 = "[]" and imgs = "[]" and i = 0 and ?e4.0 = "[]",
      THEN conjunct1, rule_format]
  note no_prompt = failures_only_in_response [where svc = "demo_services (Inr [[1, 2, 3]]) (\<lambda>n. None)"
      and req = "\<lparr>req_Body = body_empty_prompt\<rparr>" and cfg = "demo_config []" and w = demo_world
      and ?e1.0 = "[]" and ?in0.0 = ?empty and ?e3.0 = "[]" and imgs = "[]" and i = 0 and ?e4.0 = "[]",
      THEN conjunct2, THEN conjunct1, rule_format]
  note no_image = failures_only_in_response [where svc = "demo_services (Inl ''quota exceeded'') (\<lambda>n. None)"
      and req = "\<lparr>req_Body = body_one\<rparr>" and cfg = "demo_config []" and w = demo_world
      and ?e1.0 = "[]" and ?in0.0 = ?one and ?e3.0 = "''quota exceeded''" and imgs = "[]"
      and i = 0 and ?e4.0 = "[]",
      THEN conjunct2, THEN conjunct2, THEN conjunct1, rule_format]
  note no_upload = failures_only_in_response [where
      svc = "demo_services (Inr [[1, 2, 3]]) (\<lambda>n. Some ''AccessDenied'')"
      and req = "\<lparr>req_Body = body_one\<rparr>" and cfg = "demo_config []" and w = demo_world
      and ?e1.0 = "[]" and ?in0.0 = ?one and ?e3.0 = "[]" and imgs = "[[1, 2, 3]]"
      and i = 0 and ?e4.0 = "''AccessDenied''",
      THEN conjunct2, THEN conjunct2, THEN conjunct2, THEN conjunct1, rule_format]
  note success = failures_only_in_response [where svc = "demo_services (Inr [[1, 2, 3]]) (\<lambda>n. None)"
      and req = "\<lparr>req_Body = body_one\<rparr>" and cfg = "demo_config []" and w = demo_world
      and ?e1.0 = "[]" and ?in0.0 = ?one and ?e3.0 = "[]" and imgs = "[[1, 2, 3]]"
      and i = 0 and ?e4.0 = "[]",
      THEN conjunct2, THEN conjunct2, THEN conjunct2, THEN conjunct2, rule_format]
  have r1: "fst (handler (demo_services (Inr [[1, 2, 3]]) (\<lambda>n. None)) (demo_config []) demo_world
          \<lparr>req_Body = body_not_json\<rparr>) =
     (\<lparr>StatusCode = 400, Headers = [(''Content-Type'', ''text/plain'')],
       Body = ''invalid JSON: invalid character 'o' in literal null (expecting 'u')''\<rparr>, None)"
    using malformed by (simp add: demo_services_simps demo_Unmarshal_simps)
  have r2: "fst (handler (demo_services (Inr [[1, 2, 3]]) (\<lambda>n. None)) (demo_config []) demo_world
          \<lparr>req_Body = body_empty_prompt\<rparr>) =
     (\<lparr>StatusCode = 400, Headers = [(''Content-Type'', ''text/plain'')],
       Body = ''prompt is required''\<rparr>, None)"
    using no_prompt by (simp add: demo_services_simps demo_Unmarshal_simps)
  have r3: "fst (handler (demo_services (Inl ''quota exceeded'') (\<lambda>n. None)) (demo_config [])
          demo_world \<lparr>req_Body = body_one\<rparr>) =
     (\<lparr>StatusCode = 500, Headers = [(''Content-Type'', ''text/plain'')],
       Body = ''image generation failed: quota exceeded''\<rparr>, None)"
    using no_image by (simp add: demo_services_simps demo_Unmarshal_simps)
  have r4: "fst (handler (demo_services (Inr [[1, 2, 3]]) (\<lambda>n. Some ''AccessDenied''))
          (demo_config []) demo_world \<lparr>req_Body = body_one\<rparr>) =
     (\<lparr>StatusCode = 500, Headers = [(''Content-Type'', ''text/plain'')],
       Body = ''failed to upload image: AccessDenied''\<rparr>, None)"
    using no_upload by (simp add: demo_services_simps demo_Unmarshal_simps)
  have r5: "fst (handler (demo_services (Inr [[1, 2, 3]]) (\<lambda>n. None)) (demo_config []) demo_world
          \<lparr>req_Body = body_one\<rparr>) =
     (\<lparr>StatusCode = 200, Headers = [(''Content-Type'', ''application/json'')],
       Body = ''{\"imageUrls\":[\"https://bucket.s3.us-east-1.amazonaws.com/imagen_0_20250805T123456.png\"]}''\<rparr>,
      None)"
    using success
    by (simp add: demo_services_simps demo_Unmarshal_simps demo_world_simps demo_loop_key
        demo_keys demo_config_simps json_Marshal_def demo_json_string_def object_url_def)
  from r1 r2 r3 r4 r5 show ?thesis by blast
qed

text \<open>
  Claim C10. For a valid request, when the generation client succeeds with no image, the
  handler makes no upload and answers with status 200 and the body
  \<^verbatim>\<open>{"imageUrls":null}\<close>: the nil slice is written as null.
\<close>

theorem no_image_is_null_list:
  assumes "json_Unmarshal_result svc (req_Body req) = Inr in0" and "Prompt in0 \<noteq> []"
    and "GenerateImages_result svc (gen_calls w) (generation_call in0) = Inr []"
  shows "handler svc cfg w req =
           ((\<lparr>StatusCode = 200, Headers = [(''Content-Type'', ''application/json'')],
              Body = ''{\"imageUrls\":null}''\<rparr>, None),
            w\<lparr>gen_calls := gen_calls w @ [generation_call in0]\<rparr>)"
  using assms by (simp add: handler_valid json_Marshal_def)

theorem no_image_is_null_list_witness:
  "fst (handler (demo_services (Inr []) (\<lambda>n. None)) (demo_config []) demo_world
     \<lparr>req_Body = body_cat2\<rparr>) =
   (\<lparr>StatusCode = 200, Headers = [(''Content-Type'', ''application/json'')],
      Body = ''{\"imageUrls\":null}''\<rparr>, None) \<and>
   put_calls (snd (handler (demo_services (Inr []) (\<lambda>n. None)) (demo_config []) demo_world
     \<lparr>req_Body = body_cat2\<rparr>)) = []"
  using no_image_is_null_list [of "demo_services (Inr []) (\<lambda>n. None)" "\<lparr>req_Body = body_cat2\<rparr>"
      "\<lparr>NumberOfImages = 2, AspectRatio = ''SQUARE'', PersonGeneration = [], Prompt = ''A cat''\<rparr>"
      demo_world "demo_config []"]
  by (simp add: demo_services_simps demo_Unmarshal_simps demo_world_simps)

end
